theory Spec2Isabelle
  imports Main "HOL-Library.Word"
begin

section \<open>JavaScript primitives used by \<open>src/routes/index.ts\<close>\<close>

text \<open>
  The file holds two revisions of the route module; the model follows the later one
  (lines 102 to 264), which has the digest, the rate limit and the deduplication.
  The route file is TypeScript on the Hono framework. Strings are modelled as
  \<^typ>\<open>string\<close>, a value that may be \<open>null\<close> or \<open>undefined\<close> as an \<open>option\<close>, an
  \<open>ArrayBuffer\<close> as a list of bytes. A thrown exception (a rejected promise under
  \<open>await\<close>) is the left injection of a sum.
\<close>

type_synonym bytes = "8 word list"

datatype exn =
    ContentTypeRequired   \<comment> \<open>\<open>new Error('Content-Type is required')\<close>\<close>
  | JsonSyntaxError       \<comment> \<open>\<open>c.req.json()\<close> rejects: the body is not JSON\<close>
  | NotAFunction          \<comment> \<open>\<open>TypeError\<close>: \<open>url.startsWith\<close> on a value that is no string\<close>
  | D1Failure             \<comment> \<open>a D1 statement rejects\<close>
  | R2Failure             \<comment> \<open>\<open>r2.put\<close> rejects\<close>
  | InvalidURL            \<comment> \<open>\<open>new URL(R2_BASE_URL)\<close> throws\<close>
  | FetchFailure          \<comment> \<open>\<open>fetch(url)\<close> rejects\<close>
  | BodyReadFailure       \<comment> \<open>\<open>arrayBuffer()\<close> rejects\<close>

text \<open>\<open>s.startsWith(p)\<close>\<close>

definition startsWith :: "string \<Rightarrow> string \<Rightarrow> bool" where
  "startsWith s p = (take (length p) s = p)"

text \<open>
  Truthiness of a \<open>string | null | undefined\<close> value: \<open>null\<close>, \<open>undefined\<close> and the
  empty string are falsy.
\<close>

definition truthy :: "string option \<Rightarrow> bool" where
  "truthy v = (case v of None \<Rightarrow> False | Some s \<Rightarrow> s \<noteq> [])"

text \<open>\<open>v || d\<close> on such a value.\<close>

definition orElse :: "string option \<Rightarrow> string \<Rightarrow> string" where
  "orElse v d = (case v of None \<Rightarrow> d | Some s \<Rightarrow> if truthy (Some s) then s else d)"

subsection \<open>\<open>parseInt\<close> with no radix argument\<close>

text \<open>
  \<open>parseInt(str)\<close> skips leading white space, reads an optional sign, switches to
  radix 16 after a \<open>0x\<close> or \<open>0X\<close> prefix, and reads the longest run of digits; with
  no digit the result is \<open>NaN\<close>, here \<open>None\<close>. The numeric value is kept as an exact
  integer: a JavaScript number represents it exactly up to \<open>2^53\<close> in magnitude, and
  the theorems below that depend on a comparison with a parsed number keep that number
  inside the range (\<open>safeInteger\<close>). White space is the ASCII part of the
  JavaScript set.
\<close>

definition isWhiteSpace :: "char \<Rightarrow> bool" where
  "isWhiteSpace c = (of_char c \<in> {9, 10, 11, 12, 13, 32 :: nat})"

definition digitValue :: "char \<Rightarrow> nat option" where
  "digitValue c =
     (let n = (of_char c :: nat) in
      if 48 \<le> n \<and> n \<le> 57 then Some (n - 48)
      else if 97 \<le> n \<and> n \<le> 122 then Some (n - 87)
      else if 65 \<le> n \<and> n \<le> 90 then Some (n - 55)
      else None)"

fun digitsPrefix :: "nat \<Rightarrow> string \<Rightarrow> nat list" where
  "digitsPrefix R [] = []"
| "digitsPrefix R (c # cs) =
     (case digitValue c of
        None \<Rightarrow> []
      | Some d \<Rightarrow> if d < R then d # digitsPrefix R cs else [])"

definition stripSign :: "string \<Rightarrow> bool \<times> string" where
  "stripSign s =
     (case s of
        [] \<Rightarrow> (False, s)
      | c # r \<Rightarrow> if c = CHR ''-'' then (True, r)
                 else if c = CHR ''+'' then (False, r)
                 else (False, s))"

definition stripRadix :: "string \<Rightarrow> nat \<times> string" where
  "stripRadix s =
     (if startsWith s ''0x'' \<or> startsWith s ''0X'' then (16, drop 2 s) else (10, s))"

definition parseInt :: "string \<Rightarrow> int option" where
  "parseInt str =
     (let (neg, s1) = stripSign (dropWhile isWhiteSpace str);
          (R, s2) = stripRadix s1;
          ds = digitsPrefix R s2
      in if ds = [] then None
         else Some ((if neg then - 1 else 1) * int (foldl (\<lambda>a d. a * R + d) 0 ds)))"

definition safeInteger :: "int \<Rightarrow> bool" where
  "safeInteger n = (\<bar>n\<bar> \<le> 2 ^ 53)"

text \<open>
  \<open>a > b\<close> and \<open>a >= b\<close> on numbers: every comparison with \<open>NaN\<close> is false.
\<close>

definition jsGreater :: "int option \<Rightarrow> int option \<Rightarrow> bool" where
  "jsGreater a b = (case (a, b) of (Some x, Some y) \<Rightarrow> x > y | _ \<Rightarrow> False)"

definition jsGreaterEq :: "int option \<Rightarrow> int option \<Rightarrow> bool" where
  "jsGreaterEq a b = (case (a, b) of (Some x, Some y) \<Rightarrow> x \<ge> y | _ \<Rightarrow> False)"

section \<open>\<open>getFileExtension\<close>\<close>

text \<open>
  \<open>mimeTypeMap\<close> is an object literal, so \<open>mimeTypeMap[contentType]\<close> finds the seven
  own properties and, through the prototype chain, the members of
  \<open>Object.prototype\<close>. Those members are functions (and an object for \<open>__proto__\<close>),
  all truthy, so \<open>||\<close> returns them as they are.
\<close>

datatype jsval =
    Str string             \<comment> \<open>a string\<close>
  | Inherited string       \<comment> \<open>the member of \<open>Object.prototype\<close> of that name\<close>

definition mimeTypeMap :: "(string \<times> string) list" where
  "mimeTypeMap =
     [(''image/jpeg'', ''jpg''),
      (''image/png'', ''png''),
      (''image/gif'', ''gif''),
      (''image/webp'', ''webp''),
      (''image/bmp'', ''bmp''),
      (''image/tiff'', ''tiff''),
      (''image/svg+xml'', ''svg'')]"

definition objectPrototypeMembers :: "string list" where
  "objectPrototypeMembers =
     [''constructor'', ''hasOwnProperty'', ''isPrototypeOf'', ''propertyIsEnumerable'',
      ''toLocaleString'', ''toString'', ''valueOf'', ''__proto__'',
      ''__defineGetter__'', ''__defineSetter__'', ''__lookupGetter__'',
      ''__lookupSetter__'']"

definition getFileExtension :: "string option \<Rightarrow> exn + jsval" where
  "getFileExtension contentType =
     (case contentType of
        None \<Rightarrow> Inl ContentTypeRequired
      | Some ct \<Rightarrow>
          if \<not> truthy (Some ct) then Inl ContentTypeRequired
          else (case map_of mimeTypeMap ct of
                  Some ext \<Rightarrow> Inr (Str ext)
                | None \<Rightarrow>
                    if ct \<in> set objectPrototypeMembers then Inr (Inherited ct)
                    else Inr (Str ''unknown'')))"

text \<open>
  A template literal \<open>`${v}`\<close> converts the value to a string; for an inherited
  member that is the source text of the native function, or \<open>[object Object]\<close> for
  the prototype object itself.
\<close>

definition templateString :: "jsval \<Rightarrow> string" where
  "templateString v =
     (case v of
        Str s \<Rightarrow> s
      | Inherited n \<Rightarrow>
          if n = ''__proto__'' then ''[object Object]''
          else ''function '' @ n @ ''() { [native code] }'')"

section \<open>The stores, the environment and the request\<close>

text \<open>
  The handlers act on two external stores: the D1 database with the tables \<open>uploads\<close>
  and \<open>images\<close>, and the R2 bucket. The state also logs the outbound requests issued
  with \<open>fetch\<close>, so that "no outbound fetch" can be stated.
\<close>

record image_row =
  img_url :: string
  img_md5 :: string
  img_original_url :: "string option"

record r2_object =
  obj_body :: bytes
  obj_content_type :: string

record state =
  uploads :: "(string \<times> string) list"    \<comment> \<open>rows \<open>(ip, date)\<close> of table \<open>uploads\<close>\<close>
  images :: "image_row list"                 \<comment> \<open>rows of table \<open>images\<close>, in insertion order\<close>
  r2 :: "(string \<times> r2_object) list"         \<comment> \<open>the bucket: one object per key\<close>
  fetched :: "string list"                   \<comment> \<open>URLs requested with \<open>fetch\<close>\<close>

text \<open>\<open>r2.put(key, ...)\<close> replaces the object stored under the key, if any.\<close>

definition r2Put :: "string \<Rightarrow> r2_object \<Rightarrow> (string \<times> r2_object) list \<Rightarrow> (string \<times> r2_object) list" where
  "r2Put key obj bucket = filter (\<lambda>kv. fst kv \<noteq> key) bucket @ [(key, obj)]"

text \<open>
  The awaited calls on the collaborators can reject. Which of them do, for one request,
  is part of that request's environment, like the clock and the random number.
\<close>

datatype extop =
    D1Count           \<comment> \<open>\<open>SELECT COUNT(*) ... FROM uploads\<close>\<close>
  | D1InsertUpload    \<comment> \<open>\<open>INSERT INTO uploads\<close>\<close>
  | D1SelectImage     \<comment> \<open>\<open>SELECT url FROM images\<close>\<close>
  | D1InsertImage     \<comment> \<open>\<open>INSERT INTO images\<close>\<close>
  | R2Put             \<comment> \<open>\<open>r2.put\<close>\<close>
  | ReadBody          \<comment> \<open>\<open>c.req.arrayBuffer()\<close>\<close>

datatype fetch_result =
    FetchRejects
  | FetchResponse "string option" "string option" "bytes option"
    \<comment> \<open>the \<open>content-type\<close> header, the \<open>content-length\<close> header, and the body
        (\<open>None\<close> when \<open>response.arrayBuffer()\<close> rejects)\<close>

record world =
  runtimeKey :: string                 \<comment> \<open>\<open>getRuntimeKey()\<close>\<close>
  MAX_BODY_SIZE :: string              \<comment> \<open>\<open>env(c).MAX_BODY_SIZE\<close>\<close>
  MAX_UPLOAD_COUNT :: string
  R2_BASE_URL :: string
  R2_BUCKET_PREFIX :: string
  today :: string                      \<comment> \<open>\<open>dayjs().format('YYYY-MM-DD')\<close>\<close>
  stamp :: string                      \<comment> \<open>\<open>dayjs().format('YYYYMMDDHHmmssSSS')\<close>\<close>
  random36 :: string                   \<comment> \<open>\<open>Math.random().toString(36).slice(2, 9)\<close>\<close>
  fetch :: "string \<Rightarrow> fetch_result"
  rejects :: "extop \<Rightarrow> bool"

text \<open>
  Two library functions are parameters of the model: the MD5 digest in hexadecimal of
  \<open>crypto.createHash('md5')\<close>, and the WHATWG \<open>URL\<close> class, as the function that
  parses a base, assigns \<open>pathname\<close> and serialises (\<open>None\<close> when the constructor
  throws).
\<close>

record platform =
  md5hex :: "bytes \<Rightarrow> string"
  urlWithPathname :: "string \<Rightarrow> string \<Rightarrow> string option"

datatype json =
    JNull
  | JBool bool
  | JNumber int
  | JString string
  | JArray "json list"
  | JObject "(string \<times> json) list"

record request =
  contentTypeHeader :: "string option"     \<comment> \<open>\<open>c.req.header('content-type')\<close>\<close>
  contentLengthHeader :: "string option"   \<comment> \<open>\<open>c.req.header('content-length')\<close>\<close>
  cfConnectingIP :: "string option"        \<comment> \<open>\<open>c.req.header('CF-Connecting-IP')\<close>\<close>
  jsonBody :: "json option"                \<comment> \<open>\<open>c.req.json()\<close>; \<open>None\<close> when it rejects\<close>
  bodyBytes :: bytes                       \<comment> \<open>\<open>c.req.arrayBuffer()\<close>\<close>

datatype response =
    JsonSuccess string       \<comment> \<open>\<open>c.json({ success: true, url })\<close>, status 200\<close>
  | JsonError string nat     \<comment> \<open>\<open>c.json({ error }, status)\<close>\<close>

datatype outcome =
    Respond response
  | Throw exn                \<comment> \<open>the exception leaves the handler\<close>

text \<open>The responses of the handlers, by the error class of the specification.\<close>

abbreviation UnsupportedRuntime :: outcome where
  "UnsupportedRuntime \<equiv>
     Respond (JsonError ''This function is only available in Cloudflare Workers'' 500)"

abbreviation UrlRequired :: outcome where
  "UrlRequired \<equiv> Respond (JsonError ''URL is required'' 400)"

abbreviation RateLimited :: outcome where
  "RateLimited \<equiv> Respond (JsonError ''Upload limit exceeded for this IP'' 429)"

abbreviation InvalidFormat :: outcome where
  "InvalidFormat \<equiv> Respond (JsonError ''Invalid image format'' 400)"

abbreviation TooLarge :: outcome where
  "TooLarge \<equiv> Respond (JsonError ''Image size exceeds the limit'' 400)"

abbreviation UploadFailed :: outcome where
  "UploadFailed \<equiv> Respond (JsonError ''Failed to upload image'' 500)"

abbreviation Success :: "string \<Rightarrow> outcome" where
  "Success u \<equiv> Respond (JsonSuccess u)"

text \<open>Truthiness of a JSON value, or of \<open>undefined\<close> (\<open>None\<close>).\<close>

definition jsonTruthy :: "json option \<Rightarrow> bool" where
  "jsonTruthy v =
     (case v of
        None \<Rightarrow> False
      | Some JNull \<Rightarrow> False
      | Some (JBool b) \<Rightarrow> b
      | Some (JNumber n) \<Rightarrow> n \<noteq> 0
      | Some (JString s) \<Rightarrow> s \<noteq> []
      | Some (JArray _) \<Rightarrow> True
      | Some (JObject _) \<Rightarrow> True)"

text \<open>
  \<open>const { url } = (await c.req.json()) || {}\<close>: a falsy document is replaced by the
  empty object; only an object can have an own property \<open>url\<close>.
\<close>

definition urlProperty :: "json \<Rightarrow> json option" where
  "urlProperty j =
     (case (if jsonTruthy (Some j) then j else JObject []) of
        JObject kvs \<Rightarrow> map_of kvs ''url''
      | _ \<Rightarrow> None)"

section \<open>The operations of \<open>src/routes/index.ts\<close>\<close>

subsection \<open>\<open>calculateMD5\<close>\<close>

text \<open>The hexadecimal MD5 digest of the buffer, computed by the \<open>crypto\<close> library.\<close>

definition calculateMD5 :: "platform \<Rightarrow> bytes \<Rightarrow> string" where
  "calculateMD5 P buffer = md5hex P buffer"

subsection \<open>\<open>uploadImageToR2\<close>\<close>

definition objectKey :: "world \<Rightarrow> jsval \<Rightarrow> string" where
  "objectKey w fileExtension =
     R2_BUCKET_PREFIX w @ stamp w @ ''-'' @ random36 w @ ''.'' @ templateString fileExtension"

definition uploadImageToR2 ::
  "platform \<Rightarrow> world \<Rightarrow> bytes \<Rightarrow> string \<Rightarrow> state \<Rightarrow> (exn + string) \<times> state" where
  "uploadImageToR2 P w body contentType s =
     (case getFileExtension (Some contentType) of
        Inl e \<Rightarrow> (Inl e, s)
      | Inr fileExtension \<Rightarrow>
          let key = objectKey w fileExtension in
          if rejects w R2Put then (Inl R2Failure, s)
          else
            let s1 = s\<lparr>r2 := r2Put key \<lparr>obj_body = body, obj_content_type = contentType\<rparr> (r2 s)\<rparr>
            in (case urlWithPathname P (R2_BASE_URL w) key of
                  None \<Rightarrow> (Inl InvalidURL, s1)
                | Some imageUrl \<Rightarrow> (Inr imageUrl, s1)))"

subsection \<open>\<open>checkIPUploadCount\<close>\<close>

text \<open>\<open>SELECT COUNT(*) as count FROM uploads WHERE ip = ? AND date = ?\<close>\<close>

definition countUploads :: "string \<Rightarrow> string \<Rightarrow> state \<Rightarrow> nat" where
  "countUploads ip date s = length (filter (\<lambda>row. row = (ip, date)) (uploads s))"

text \<open>
  The aggregate query always yields one row, so \<open>result\<close> is truthy and the guard is
  the comparison \<open>result.count >= MAX_UPLOAD_COUNT\<close>.
\<close>

definition checkIPUploadCount :: "world \<Rightarrow> string \<Rightarrow> state \<Rightarrow> (exn + bool) \<times> state" where
  "checkIPUploadCount w ip s =
     (if rejects w D1Count then (Inl D1Failure, s)
      else if jsGreaterEq (Some (int (countUploads ip (today w) s)))
                (parseInt (MAX_UPLOAD_COUNT w))
        then (Inr False, s)
      else if rejects w D1InsertUpload then (Inl D1Failure, s)
      else (Inr True, s\<lparr>uploads := uploads s @ [(ip, today w)]\<rparr>))"

subsection \<open>\<open>checkFileExists\<close>\<close>

text \<open>\<open>SELECT url FROM images WHERE md5 = ?\<close>, first row; a read only.\<close>

definition checkFileExists :: "world \<Rightarrow> string \<Rightarrow> state \<Rightarrow> exn + string option" where
  "checkFileExists w md5 s =
     (if rejects w D1SelectImage then Inl D1Failure
      else Inr (map_option img_url (find (\<lambda>row. img_md5 row = md5) (images s))))"

subsection \<open>The two handlers\<close>

text \<open>
  The statements from the digest to the final response are the same in both handlers
  (lines 218 to 226 and 254 to 261) up to the value bound to \<open>original_url\<close>; they are
  one function here. An exception is returned to the caller, which catches it or not.
\<close>

definition storeAndRecord ::
  "platform \<Rightarrow> world \<Rightarrow> bytes \<Rightarrow> string \<Rightarrow> string option \<Rightarrow> string \<Rightarrow> state \<Rightarrow> (exn + response) \<times> state" where
  "storeAndRecord P w body contentType originalUrl md5 s =
     (case uploadImageToR2 P w body contentType s of
        (Inl e, s1) \<Rightarrow> (Inl e, s1)
      | (Inr imageUrl, s1) \<Rightarrow>
          if rejects w D1InsertImage then (Inl D1Failure, s1)
          else (Inr (JsonSuccess imageUrl),
                s1\<lparr>images := images s1 @
                  [\<lparr>img_url = imageUrl, img_md5 = md5, img_original_url = originalUrl\<rparr>]\<rparr>))"

definition dedupAndStore ::
  "platform \<Rightarrow> world \<Rightarrow> bytes \<Rightarrow> string \<Rightarrow> string option \<Rightarrow> state \<Rightarrow> (exn + response) \<times> state" where
  "dedupAndStore P w body contentType originalUrl s =
     (let md5 = calculateMD5 P body in
      case checkFileExists w md5 s of
        Inl e \<Rightarrow> (Inl e, s)
      | Inr existingUrl \<Rightarrow>
          (case existingUrl of
             None \<Rightarrow> storeAndRecord P w body contentType originalUrl md5 s
           | Some u \<Rightarrow>
               if truthy (Some u) then (Inr (JsonSuccess u), s)
               else storeAndRecord P w body contentType originalUrl md5 s))"

text \<open>
  \<open>contentLength && parseInt(contentLength) > MAX_BODY_SIZE\<close>, with
  \<open>MAX_BODY_SIZE = parseInt(envValue.MAX_BODY_SIZE)\<close>.
\<close>

definition exceedsLimit :: "string option \<Rightarrow> string \<Rightarrow> bool" where
  "exceedsLimit contentLength maxBodySize =
     (case contentLength of
        None \<Rightarrow> False
      | Some l \<Rightarrow> truthy (Some l) \<and> jsGreater (parseInt l) (parseInt maxBodySize))"

text \<open>\<open>app.post('/upload-from-body', ...)\<close>: no statement of it is inside a \<open>try\<close>.\<close>

definition uploadFromBody :: "platform \<Rightarrow> world \<Rightarrow> request \<Rightarrow> state \<Rightarrow> outcome \<times> state" where
  "uploadFromBody P w rq s =
     (if runtimeKey w \<noteq> ''workerd''
      then (UnsupportedRuntime, s)
      else
        (case contentTypeHeader rq of
           None \<Rightarrow> (InvalidFormat, s)
         | Some contentType \<Rightarrow>
             if \<not> truthy (Some contentType) \<or> \<not> startsWith contentType ''image/''
             then (InvalidFormat, s)
             else if exceedsLimit (contentLengthHeader rq) (MAX_BODY_SIZE w)
             then (TooLarge, s)
             else
               (case checkIPUploadCount w (orElse (cfConnectingIP rq) ''unknown'') s of
                  (Inl e, s1) \<Rightarrow> (Throw e, s1)
                | (Inr False, s1) \<Rightarrow>
                    (RateLimited, s1)
                | (Inr True, s1) \<Rightarrow>
                    if rejects w ReadBody then (Throw BodyReadFailure, s1)
                    else
                      (case dedupAndStore P w (bodyBytes rq) contentType None s1 of
                         (Inl e, s2) \<Rightarrow> (Throw e, s2)
                       | (Inr r, s2) \<Rightarrow> (Respond r, s2)))))"

text \<open>The \<open>try\<close> block of \<open>/upload-from-url\<close>, lines 204 to 226.\<close>

definition fetchAndStore ::
  "platform \<Rightarrow> world \<Rightarrow> string \<Rightarrow> state \<Rightarrow> (exn + response) \<times> state" where
  "fetchAndStore P w url s =
     (let s1 = s\<lparr>fetched := fetched s @ [url]\<rparr> in
      case fetch w url of
        FetchRejects \<Rightarrow> (Inl FetchFailure, s1)
      | FetchResponse contentTypeOpt contentLength bodyOpt \<Rightarrow>
          (case contentTypeOpt of
             None \<Rightarrow> (Inr (JsonError ''Invalid image format'' 400), s1)
           | Some contentType \<Rightarrow>
               if \<not> truthy (Some contentType) \<or> \<not> startsWith contentType ''image/''
               then (Inr (JsonError ''Invalid image format'' 400), s1)
               else if exceedsLimit contentLength (MAX_BODY_SIZE w)
               then (Inr (JsonError ''Image size exceeds the limit'' 400), s1)
               else
                 (case bodyOpt of
                    None \<Rightarrow> (Inl BodyReadFailure, s1)
                  | Some body \<Rightarrow> dedupAndStore P w body contentType (Some url) s1)))"

text \<open>
  \<open>app.post('/upload-from-url', ...)\<close>: the JSON body, the admission and the test
  \<open>url.startsWith(R2_BASE_URL)\<close> come before the \<open>try\<close>; the \<open>catch\<close> turns every
  exception of the block into the response 500.
\<close>

definition uploadFromUrl :: "platform \<Rightarrow> world \<Rightarrow> request \<Rightarrow> state \<Rightarrow> outcome \<times> state" where
  "uploadFromUrl P w rq s =
     (if runtimeKey w \<noteq> ''workerd''
      then (UnsupportedRuntime, s)
      else
        (case jsonBody rq of
           None \<Rightarrow> (Throw JsonSyntaxError, s)
         | Some j \<Rightarrow>
             let url = urlProperty j in
             if \<not> jsonTruthy url then (UrlRequired, s)
             else
               (case checkIPUploadCount w (orElse (cfConnectingIP rq) ''unknown'') s of
                  (Inl e, s1) \<Rightarrow> (Throw e, s1)
                | (Inr False, s1) \<Rightarrow>
                    (RateLimited, s1)
                | (Inr True, s1) \<Rightarrow>
                    (case url of
                       Some (JString u) \<Rightarrow>
                         if startsWith u (R2_BASE_URL w) then (Success u, s1)
                         else
                           (case fetchAndStore P w u s1 of
                              (Inl e, s2) \<Rightarrow>
                                (UploadFailed, s2)
                            | (Inr r, s2) \<Rightarrow> (Respond r, s2))
                     | _ \<Rightarrow> (Throw NotAFunction, s1)))))"

section \<open>\<open>/upload-from-body\<close> between its \<open>await\<close>s\<close>

text \<open>
  A handler is an \<open>async\<close> function: at every \<open>await\<close> of a call on D1 or R2 it yields,
  and another request can run. The handler of \<open>/upload-from-body\<close> is cut here at those
  calls. One step runs the handler up to and including its next call on a store; each
  call is taken to be atomic at the store, the coarsest interleaving the code allows.
  The constructors hold the local variables that are live at the cut.
\<close>

datatype task =
    Start
  | Counted string nat             \<comment> \<open>\<open>contentType\<close>, \<open>result.count\<close>: after the \<open>SELECT COUNT(*)\<close>\<close>
  | Admitted string                \<comment> \<open>\<open>contentType\<close>: after the \<open>INSERT INTO uploads\<close>\<close>
  | Looked string "string option"  \<comment> \<open>\<open>contentType\<close>, \<open>existingUrl\<close>: after the \<open>SELECT url\<close>\<close>
  | Stored string                  \<comment> \<open>\<open>imageUrl\<close>: after \<open>r2.put\<close>\<close>
  | Finished outcome

definition putStep :: "platform \<Rightarrow> world \<Rightarrow> request \<Rightarrow> string \<Rightarrow> state \<Rightarrow> task \<times> state" where
  "putStep P w rq contentType s =
     (case uploadImageToR2 P w (bodyBytes rq) contentType s of
        (Inl e, s1) \<Rightarrow> (Finished (Throw e), s1)
      | (Inr imageUrl, s1) \<Rightarrow> (Stored imageUrl, s1))"

fun stepBody :: "platform \<Rightarrow> world \<Rightarrow> request \<Rightarrow> task \<Rightarrow> state \<Rightarrow> task \<times> state" where
  "stepBody P w rq Start s =
     (if runtimeKey w \<noteq> ''workerd''
      then (Finished UnsupportedRuntime, s)
      else
        (case contentTypeHeader rq of
           None \<Rightarrow> (Finished InvalidFormat, s)
         | Some contentType \<Rightarrow>
             if \<not> truthy (Some contentType) \<or> \<not> startsWith contentType ''image/''
             then (Finished InvalidFormat, s)
             else if exceedsLimit (contentLengthHeader rq) (MAX_BODY_SIZE w)
             then (Finished TooLarge, s)
             else if rejects w D1Count then (Finished (Throw D1Failure), s)
             else (Counted contentType
                     (countUploads (orElse (cfConnectingIP rq) ''unknown'') (today w) s), s)))"
| "stepBody P w rq (Counted contentType n) s =
     (if jsGreaterEq (Some (int n)) (parseInt (MAX_UPLOAD_COUNT w))
      then (Finished RateLimited, s)
      else if rejects w D1InsertUpload then (Finished (Throw D1Failure), s)
      else (Admitted contentType,
            s\<lparr>uploads := uploads s @ [(orElse (cfConnectingIP rq) ''unknown'', today w)]\<rparr>))"
| "stepBody P w rq (Admitted contentType) s =
     (if rejects w ReadBody then (Finished (Throw BodyReadFailure), s)
      else
        (case checkFileExists w (calculateMD5 P (bodyBytes rq)) s of
           Inl e \<Rightarrow> (Finished (Throw e), s)
         | Inr existingUrl \<Rightarrow> (Looked contentType existingUrl, s)))"
| "stepBody P w rq (Looked contentType existingUrl) s =
     (case existingUrl of
        None \<Rightarrow> putStep P w rq contentType s
      | Some u \<Rightarrow>
          if truthy (Some u) then (Finished (Success u), s)
          else putStep P w rq contentType s)"
| "stepBody P w rq (Stored imageUrl) s =
     (if rejects w D1InsertImage then (Finished (Throw D1Failure), s)
      else (Finished (Success imageUrl),
            s\<lparr>images := images s @
              [\<lparr>img_url = imageUrl, img_md5 = calculateMD5 P (bodyBytes rq),
                img_original_url = None\<rparr>]\<rparr>))"
| "stepBody P w rq (Finished out) s = (Finished out, s)"

text \<open>
  Two requests \<open>A\<close> and \<open>B\<close> on the shared stores, under a schedule: \<open>True\<close> lets \<open>A\<close>
  take its next step, \<open>False\<close> lets \<open>B\<close>.
\<close>

fun interleave ::
  "platform \<Rightarrow> world \<times> request \<Rightarrow> world \<times> request \<Rightarrow> bool list
     \<Rightarrow> task \<times> task \<times> state \<Rightarrow> task \<times> task \<times> state" where
  "interleave P A B [] cfg = cfg"
| "interleave P A B (turn # sched) (ta, tb, s) =
     (if turn
      then (case stepBody P (fst A) (snd A) ta s of
              (ta', s') \<Rightarrow> interleave P A B sched (ta', tb, s'))
      else (case stepBody P (fst B) (snd B) tb s of
              (tb', s') \<Rightarrow> interleave P A B sched (ta, tb', s')))"

text \<open>One request alone: five steps reach \<open>Finished\<close> from \<open>Start\<close>.\<close>

fun runBody :: "nat \<Rightarrow> platform \<Rightarrow> world \<Rightarrow> request \<Rightarrow> task \<times> state \<Rightarrow> task \<times> state" where
  "runBody 0 P w rq cfg = cfg"
| "runBody (Suc n) P w rq (t, s) = runBody n P w rq (stepBody P w rq t s)"

section \<open>Concrete inputs\<close>

text \<open>
  The inputs at which the theorems below are instantiated. The digest and the URL class
  are stand-ins with the shape of the library functions: any pair of functions would
  do, since every theorem holds for all of them.
\<close>

definition demoPlatform :: platform where
  "demoPlatform =
     \<lparr>md5hex = (\<lambda>b. ''md5:'' @ replicate (length b) CHR ''0''),
      urlWithPathname = (\<lambda>base key. Some (base @ ''/'' @ key))\<rparr>"

definition demoWorld :: world where
  "demoWorld =
     \<lparr>runtimeKey = ''workerd'',
      MAX_BODY_SIZE = ''10485760'',
      MAX_UPLOAD_COUNT = ''2'',
      R2_BASE_URL = ''https://r2.test'',
      R2_BUCKET_PREFIX = ''i/'',
      today = ''2024-05-01'',
      stamp = ''20240501120000000'',
      random36 = ''k3x9q0a'',
      fetch = (\<lambda>u. FetchRejects),
      rejects = (\<lambda>call. False)\<rparr>"

definition demoRequest :: request where
  "demoRequest =
     \<lparr>contentTypeHeader = Some ''image/png'',
      contentLengthHeader = Some ''3'',
      cfConnectingIP = Some ''203.0.113.7'',
      jsonBody = None,
      bodyBytes = [1, 2, 3]\<rparr>"

definition emptyState :: state where
  "emptyState = \<lparr>uploads = [], images = [], r2 = [], fetched = []\<rparr>"

text \<open>
  The stores after \<open>demoRequest\<close> has been ingested in \<open>demoWorld\<close> from the empty
  stores: one admission, one object, one row of \<open>images\<close>.
\<close>

definition demoKey :: string where
  "demoKey = ''i/20240501120000000-k3x9q0a.png''"

definition demoUrl :: string where
  "demoUrl = ''https://r2.test/i/20240501120000000-k3x9q0a.png''"

definition demoStoredState :: state where
  "demoStoredState =
     \<lparr>uploads = [(''203.0.113.7'', ''2024-05-01'')],
      images = [\<lparr>img_url = demoUrl, img_md5 = ''md5:000'', img_original_url = None\<rparr>],
      r2 = [(demoKey, \<lparr>obj_body = [1, 2, 3], obj_content_type = ''image/png''\<rparr>)],
      fetched = []\<rparr>"

text \<open>The same stores once the client has used its two admissions of the day.\<close>

definition demoFullState :: state where
  "demoFullState =
     demoStoredState\<lparr>uploads :=
       [(''203.0.113.7'', ''2024-05-01''), (''203.0.113.7'', ''2024-05-01'')]\<rparr>"

text \<open>A request to \<open>/upload-from-url\<close> with the JSON body \<open>{"url": u}\<close>.\<close>

definition demoUrlRequest :: "string \<Rightarrow> request" where
  "demoUrlRequest u =
     \<lparr>contentTypeHeader = Some ''application/json'',
      contentLengthHeader = None,
      cfConnectingIP = Some ''203.0.113.7'',
      jsonBody = Some (JObject [(''url'', JString u)]),
      bodyBytes = []\<rparr>"

section \<open>Auxiliary facts\<close>

lemma parseInt_Nil: "parseInt [] = None"
  by (simp add: parseInt_def stripSign_def stripRadix_def startsWith_def)

lemma exceedsLimit_greater:
  assumes "parseInt cl = Some n" and "parseInt mx = Some m" and "m < n"
  shows "exceedsLimit (Some cl) mx"
proof -
  from assms(1) have "cl \<noteq> []" using parseInt_Nil by auto
  with assms show ?thesis by (simp add: exceedsLimit_def truthy_def jsGreater_def)
qed

lemma checkIPUploadCount_result:
  "checkIPUploadCount w ip s = (Inl D1Failure, s)
   \<or> checkIPUploadCount w ip s = (Inr False, s)
   \<or> checkIPUploadCount w ip s = (Inr True, s\<lparr>uploads := uploads s @ [(ip, today w)]\<rparr>)"
  by (simp add: checkIPUploadCount_def)

lemma checkIPUploadCount_admit:
  assumes "\<not> rejects w D1Count" "\<not> rejects w D1InsertUpload"
    and "parseInt (MAX_UPLOAD_COUNT w) = Some m" and "int (countUploads ip (today w) s) < m"
  shows "checkIPUploadCount w ip s = (Inr True, s\<lparr>uploads := uploads s @ [(ip, today w)]\<rparr>)"
  using assms by (simp add: checkIPUploadCount_def jsGreaterEq_def)

lemma checkIPUploadCount_refuse:
  assumes "\<not> rejects w D1Count"
    and "parseInt (MAX_UPLOAD_COUNT w) = Some m" and "m \<le> int (countUploads ip (today w) s)"
  shows "checkIPUploadCount w ip s = (Inr False, s)"
  using assms by (simp add: checkIPUploadCount_def jsGreaterEq_def)

lemma countUploads_append:
  "countUploads ip d (s\<lparr>uploads := uploads s @ [row]\<rparr>)
     = countUploads ip d s + (if row = (ip, d) then 1 else 0)"
  by (simp add: countUploads_def)

lemma uploadFromBody_refused:
  assumes "runtimeKey w = ''workerd''"
    and "contentTypeHeader rq = Some ct" "ct \<noteq> []" "startsWith ct ''image/''"
    and "\<not> exceedsLimit (contentLengthHeader rq) (MAX_BODY_SIZE w)"
    and "checkIPUploadCount w (orElse (cfConnectingIP rq) ''unknown'') s = (Inr False, s)"
  shows "uploadFromBody P w rq s = (RateLimited, s)"
  using assms by (simp add: uploadFromBody_def truthy_def)

lemma uploadFromUrl_refused:
  assumes "runtimeKey w = ''workerd''"
    and "jsonBody rq = Some j" "jsonTruthy (urlProperty j)"
    and "checkIPUploadCount w (orElse (cfConnectingIP rq) ''unknown'') s = (Inr False, s)"
  shows "uploadFromUrl P w rq s = (RateLimited, s)"
  using assms by (simp add: uploadFromUrl_def)

lemma uploadImageToR2_uploads:
  "uploads (snd (uploadImageToR2 P w body ct s)) = uploads s"
  by (simp add: uploadImageToR2_def Let_def split: sum.splits option.splits)

lemma storeAndRecord_uploads:
  "uploads (snd (storeAndRecord P w body ct orig md5 s)) = uploads s"
proof (cases "uploadImageToR2 P w body ct s")
  case (Pair r s1)
  with uploadImageToR2_uploads [of P w body ct s] show ?thesis
    by (cases r) (simp_all add: storeAndRecord_def)
qed

lemma storeAndRecord_response:
  "storeAndRecord P w body ct orig md5 s = (Inr r, s') \<Longrightarrow> \<exists>u. r = JsonSuccess u"
  by (auto simp add: storeAndRecord_def split: prod.splits sum.splits if_splits)

lemma dedupAndStore_uploads:
  "uploads (snd (dedupAndStore P w body ct orig s)) = uploads s"
  by (simp add: dedupAndStore_def Let_def storeAndRecord_uploads split: sum.splits option.splits)

lemma dedupAndStore_response:
  "dedupAndStore P w body ct orig s = (Inr r, s') \<Longrightarrow> \<exists>u. r = JsonSuccess u"
  by (auto simp add: dedupAndStore_def Let_def split: sum.splits option.splits if_splits
      dest: storeAndRecord_response)

lemma fetchAndStore_uploads:
  "uploads (snd (fetchAndStore P w url s)) = uploads s"
  by (simp add: fetchAndStore_def Let_def dedupAndStore_uploads
      split: fetch_result.splits option.splits)

lemma uploadFromBody_error_state:
  assumes "fst (uploadFromBody P w rq s) = Respond (JsonError e c)"
  shows "snd (uploadFromBody P w rq s) = s"
  using assms checkIPUploadCount_result [of w "orElse (cfConnectingIP rq) ''unknown''" s]
  by (auto simp add: uploadFromBody_def split: option.splits if_splits prod.splits sum.splits
      dest: dedupAndStore_response)

lemma uploadFromBody_success_charged:
  assumes "fst (uploadFromBody P w rq s) = Respond (JsonSuccess u)"
  shows "uploads (snd (uploadFromBody P w rq s))
     = uploads s @ [(orElse (cfConnectingIP rq) ''unknown'', today w)]"
proof -
  let ?ip = "orElse (cfConnectingIP rq) ''unknown''"
  from assms obtain ct where adm: "checkIPUploadCount w ?ip s
        = (Inr True, s\<lparr>uploads := uploads s @ [(?ip, today w)]\<rparr>)"
    and run: "uploadFromBody P w rq s
        = (case dedupAndStore P w (bodyBytes rq) ct None
                  (s\<lparr>uploads := uploads s @ [(?ip, today w)]\<rparr>) of
             (Inl e, s2) \<Rightarrow> (Throw e, s2) | (Inr r, s2) \<Rightarrow> (Respond r, s2))"
    using checkIPUploadCount_result [of w ?ip s]
    by (auto simp add: uploadFromBody_def split: option.splits if_splits)
  have "uploads (snd (uploadFromBody P w rq s))
      = uploads (snd (dedupAndStore P w (bodyBytes rq) ct None
                  (s\<lparr>uploads := uploads s @ [(?ip, today w)]\<rparr>)))"
    by (simp add: run split: prod.splits sum.splits)
  then show ?thesis by (simp add: dedupAndStore_uploads)
qed

lemma fetchAndStore_response:
  assumes "fetchAndStore P w url s = (Inr r, s')"
  shows "r = JsonError ''Invalid image format'' 400
     \<or> r = JsonError ''Image size exceeds the limit'' 400 \<or> (\<exists>u. r = JsonSuccess u)"
  using assms
  by (auto simp add: fetchAndStore_def Let_def
      split: fetch_result.splits option.splits if_splits dest: dedupAndStore_response)

lemma uploadFromUrl_limited_state:
  assumes "fst (uploadFromUrl P w rq s) = RateLimited"
  shows "snd (uploadFromUrl P w rq s) = s"
  using assms checkIPUploadCount_result [of w "orElse (cfConnectingIP rq) ''unknown''" s]
  by (auto simp add: uploadFromUrl_def Let_def
      split: option.splits if_splits prod.splits sum.splits json.splits
      dest: fetchAndStore_response)

lemma uploadFromUrl_charged:
  assumes "fst (uploadFromUrl P w rq s) = InvalidFormat
      \<or> fst (uploadFromUrl P w rq s) = TooLarge
      \<or> (\<exists>u. fst (uploadFromUrl P w rq s) = Success u)"
  shows "uploads (snd (uploadFromUrl P w rq s))
     = uploads s @ [(orElse (cfConnectingIP rq) ''unknown'', today w)]"
proof -
  let ?ip = "orElse (cfConnectingIP rq) ''unknown''"
  let ?s1 = "s\<lparr>uploads := uploads s @ [(?ip, today w)]\<rparr>"
  from assms have adm: "checkIPUploadCount w ?ip s = (Inr True, ?s1)"
    using checkIPUploadCount_result [of w ?ip s]
    by (auto simp add: uploadFromUrl_def Let_def
        split: option.splits if_splits prod.splits sum.splits json.splits)
  from assms obtain u where u: "uploadFromUrl P w rq s = (Success u, ?s1)
      \<or> uploadFromUrl P w rq s
          = (case fetchAndStore P w u ?s1 of
               (Inl e, s2) \<Rightarrow> (UploadFailed, s2) | (Inr r, s2) \<Rightarrow> (Respond r, s2))"
    using adm
    by (auto simp add: uploadFromUrl_def Let_def
        split: option.splits if_splits json.splits)
  then show ?thesis
  proof
    assume "uploadFromUrl P w rq s = (Success u, ?s1)"
    then show ?thesis by simp
  next
    assume run: "uploadFromUrl P w rq s
          = (case fetchAndStore P w u ?s1 of
               (Inl e, s2) \<Rightarrow> (UploadFailed, s2) | (Inr r, s2) \<Rightarrow> (Respond r, s2))"
    have "uploads (snd (uploadFromUrl P w rq s)) = uploads (snd (fetchAndStore P w u ?s1))"
      by (simp add: run split: prod.splits sum.splits)
    then show ?thesis by (simp add: fetchAndStore_uploads)
  qed
qed

lemma urlProperty_demo: "urlProperty (JObject [(''url'', JString u)]) = Some (JString u)"
  by (simp add: urlProperty_def jsonTruthy_def)

lemma find_append_new:
  "find Q xs = None \<Longrightarrow> find Q (xs @ ys) = find Q ys"
  by (induction xs) (auto split: if_splits)

lemma dedupAndStore_miss:
  assumes ok: "\<not> rejects w D1SelectImage" "\<not> rejects w R2Put" "\<not> rejects w D1InsertImage"
    and new: "find (\<lambda>row. img_md5 row = calculateMD5 P body) (images s) = None"
    and ext: "getFileExtension (Some ct) = Inr ext"
    and url: "urlWithPathname P (R2_BASE_URL w) (objectKey w ext) = Some U"
  shows "dedupAndStore P w body ct orig s
     = (Inr (JsonSuccess U),
        s\<lparr>r2 := r2Put (objectKey w ext) \<lparr>obj_body = body, obj_content_type = ct\<rparr> (r2 s),
          images := images s @
            [\<lparr>img_url = U, img_md5 = calculateMD5 P body, img_original_url = orig\<rparr>]\<rparr>)"
  using assms
  by (simp add: dedupAndStore_def storeAndRecord_def uploadImageToR2_def checkFileExists_def
      Let_def)

lemma dedupAndStore_hit:
  assumes ok: "\<not> rejects w D1SelectImage"
    and old: "find (\<lambda>row. img_md5 row = calculateMD5 P body) (images s) = Some row"
    and url: "img_url row \<noteq> []"
  shows "dedupAndStore P w body ct orig s = (Inr (JsonSuccess (img_url row)), s)"
  using assms by (simp add: dedupAndStore_def checkFileExists_def Let_def truthy_def)

lemma uploadFromBody_admitted:
  assumes "runtimeKey w = ''workerd''"
    and "contentTypeHeader rq = Some ct" "ct \<noteq> []" "startsWith ct ''image/''"
    and "\<not> exceedsLimit (contentLengthHeader rq) (MAX_BODY_SIZE w)"
    and "checkIPUploadCount w (orElse (cfConnectingIP rq) ''unknown'') s = (Inr True, sa)"
    and "\<not> rejects w ReadBody"
  shows "uploadFromBody P w rq s
     = (case dedupAndStore P w (bodyBytes rq) ct None sa of
          (Inl e, s2) \<Rightarrow> (Throw e, s2) | (Inr r, s2) \<Rightarrow> (Respond r, s2))"
  using assms by (simp add: uploadFromBody_def truthy_def)

lemma exceedsLimit_absent: "\<not> truthy cl \<Longrightarrow> \<not> exceedsLimit cl mx"
  by (auto simp add: exceedsLimit_def split: option.splits)

lemma checkIPUploadCount_ceiling:
  "checkIPUploadCount (w\<lparr>MAX_BODY_SIZE := mx\<rparr>) ip s = checkIPUploadCount w ip s"
  by (simp add: checkIPUploadCount_def)

lemma uploadImageToR2_ceiling:
  "uploadImageToR2 P (w\<lparr>MAX_BODY_SIZE := mx\<rparr>) body ct s = uploadImageToR2 P w body ct s"
  by (simp add: uploadImageToR2_def objectKey_def Let_def split: sum.splits option.splits)

lemma storeAndRecord_ceiling:
  "storeAndRecord P (w\<lparr>MAX_BODY_SIZE := mx\<rparr>) body ct orig md5 s
     = storeAndRecord P w body ct orig md5 s"
  by (simp add: storeAndRecord_def uploadImageToR2_ceiling split: prod.splits sum.splits)

lemma checkFileExists_ceiling:
  "checkFileExists (w\<lparr>MAX_BODY_SIZE := mx\<rparr>) md5 s = checkFileExists w md5 s"
  by (simp add: checkFileExists_def)

lemma dedupAndStore_ceiling:
  "dedupAndStore P (w\<lparr>MAX_BODY_SIZE := mx\<rparr>) body ct orig s = dedupAndStore P w body ct orig s"
  by (simp add: dedupAndStore_def storeAndRecord_ceiling checkFileExists_ceiling Let_def
      split: sum.splits option.splits)

lemma uploadFromBody_ceiling:
  assumes "\<not> truthy (contentLengthHeader rq)"
  shows "uploadFromBody P (w\<lparr>MAX_BODY_SIZE := mx\<rparr>) rq s = uploadFromBody P w rq s"
  using assms
  by (simp add: uploadFromBody_def exceedsLimit_absent checkIPUploadCount_ceiling
      dedupAndStore_ceiling
      cong: option.case_cong prod.case_cong sum.case_cong bool.case_cong if_cong)

lemma uploadFromBody_not_TooLarge:
  assumes "\<not> truthy (contentLengthHeader rq)"
  shows "fst (uploadFromBody P w rq s) \<noteq> TooLarge"
  using assms checkIPUploadCount_result [of w "orElse (cfConnectingIP rq) ''unknown''" s]
  by (auto simp add: uploadFromBody_def exceedsLimit_absent
      split: option.splits prod.splits sum.splits dest: dedupAndStore_response)

lemma fetchAndStore_ceiling:
  assumes "fetch w u = FetchResponse cto clo bo" "\<not> truthy clo"
  shows "fetchAndStore P (w\<lparr>MAX_BODY_SIZE := mx\<rparr>) u s = fetchAndStore P w u s"
  using assms
  by (simp add: fetchAndStore_def exceedsLimit_absent dedupAndStore_ceiling Let_def
      cong: option.case_cong if_cong)

lemma dedupAndStore_fst:
  assumes "fst (dedupAndStore P w body ct orig s) = Inr r"
  shows "\<exists>u. r = JsonSuccess u"
  using assms dedupAndStore_response [of P w body ct orig s r]
  by (cases "dedupAndStore P w body ct orig s") auto

lemma fetchAndStore_not_TooLarge:
  assumes "fetch w u = FetchResponse cto clo bo" "\<not> truthy clo"
  shows "fst (fetchAndStore P w u s) \<noteq> Inr (JsonError ''Image size exceeds the limit'' 400)"
  using assms
  by (auto simp add: fetchAndStore_def exceedsLimit_absent Let_def
      split: option.splits dest: dedupAndStore_fst)

lemma uploadFromUrl_ceiling:
  assumes "jsonBody rq = Some j" "urlProperty j = Some (JString u)"
    and "fetch w u = FetchResponse cto clo bo" "\<not> truthy clo"
  shows "uploadFromUrl P (w\<lparr>MAX_BODY_SIZE := mx\<rparr>) rq s = uploadFromUrl P w rq s"
proof -
  have "fetchAndStore P (w\<lparr>MAX_BODY_SIZE := mx\<rparr>) u s' = fetchAndStore P w u s'" for s'
    using assms(3,4) by (rule fetchAndStore_ceiling)
  then show ?thesis
    using assms(1,2)
    by (simp add: uploadFromUrl_def checkIPUploadCount_ceiling
        cong: option.case_cong prod.case_cong sum.case_cong bool.case_cong if_cong)
qed

lemma uploadFromUrl_not_TooLarge:
  assumes "jsonBody rq = Some j" "urlProperty j = Some (JString u)"
    and "fetch w u = FetchResponse cto clo bo" "\<not> truthy clo"
  shows "fst (uploadFromUrl P w rq s) \<noteq> TooLarge"
proof -
  have "fetchAndStore P w u s' \<noteq> (Inr (JsonError ''Image size exceeds the limit'' 400), s2)"
    for s' s2
    using fetchAndStore_not_TooLarge [OF assms(3,4), of P s'] by auto
  then show ?thesis
    using assms(1,2) checkIPUploadCount_result [of w "orElse (cfConnectingIP rq) ''unknown''" s]
    by (auto simp add: uploadFromUrl_def Let_def jsonTruthy_def
        split: prod.splits sum.splits if_splits)
qed

lemma uploadFromUrl_admitted:
  assumes "runtimeKey w = ''workerd''"
    and "jsonBody rq = Some j" "urlProperty j = Some (JString u)" "u \<noteq> []"
    and "\<not> startsWith u (R2_BASE_URL w)"
    and "checkIPUploadCount w (orElse (cfConnectingIP rq) ''unknown'') s = (Inr True, sa)"
  shows "uploadFromUrl P w rq s
     = (case fetchAndStore P w u sa of
          (Inl e, s2) \<Rightarrow> (UploadFailed, s2) | (Inr r, s2) \<Rightarrow> (Respond r, s2))"
  using assms by (simp add: uploadFromUrl_def jsonTruthy_def)

lemma fetchAndStore_no_length:
  assumes "fetch w u = FetchResponse (Some ct) clo (Some body)"
    and "ct \<noteq> []" "startsWith ct ''image/''" "\<not> truthy clo"
  shows "fetchAndStore P w u s
     = dedupAndStore P w body ct (Some u) (s\<lparr>fetched := fetched s @ [u]\<rparr>)"
  using assms by (simp add: fetchAndStore_def exceedsLimit_absent truthy_def Let_def)

lemma two_uploads_same_bytes:
  fixes P :: platform
  assumes rt1: "runtimeKey w1 = ''workerd''"
    and ct1: "contentTypeHeader rq1 = Some ct1" "ct1 \<noteq> []" "startsWith ct1 ''image/''"
    and sz1: "\<not> exceedsLimit (contentLengthHeader rq1) (MAX_BODY_SIZE w1)"
    and adm1: "checkIPUploadCount w1 (orElse (cfConnectingIP rq1) ''unknown'') s = (Inr True, sa)"
    and ok1: "\<not> rejects w1 ReadBody" "\<not> rejects w1 D1SelectImage" "\<not> rejects w1 R2Put"
      "\<not> rejects w1 D1InsertImage"
    and new: "find (\<lambda>row. img_md5 row = calculateMD5 P (bodyBytes rq1)) (images s) = None"
    and ext: "getFileExtension (Some ct1) = Inr ext"
    and url: "urlWithPathname P (R2_BASE_URL w1) (objectKey w1 ext) = Some U" "U \<noteq> []"
    and s1: "s1 = sa\<lparr>r2 := r2Put (objectKey w1 ext)
                        \<lparr>obj_body = bodyBytes rq1, obj_content_type = ct1\<rparr> (r2 s),
                     images := images s @
                        [\<lparr>img_url = U, img_md5 = calculateMD5 P (bodyBytes rq1),
                          img_original_url = None\<rparr>]\<rparr>"
    and rt2: "runtimeKey w2 = ''workerd''"
    and ct2: "contentTypeHeader rq2 = Some ct2" "ct2 \<noteq> []" "startsWith ct2 ''image/''"
    and sz2: "\<not> exceedsLimit (contentLengthHeader rq2) (MAX_BODY_SIZE w2)"
    and adm2: "checkIPUploadCount w2 (orElse (cfConnectingIP rq2) ''unknown'') s1 = (Inr True, sb)"
    and ok2: "\<not> rejects w2 ReadBody" "\<not> rejects w2 D1SelectImage"
    and same: "bodyBytes rq2 = bodyBytes rq1"
  shows "uploadFromBody P w1 rq1 s = (Success U, s1)
    \<and> uploadFromBody P w2 rq2 s1 = (Success U, sb)
    \<and> r2 sb = r2 s1 \<and> images sb = images s1"
proof -
  let ?md5 = "calculateMD5 P (bodyBytes rq1)"
  let ?row = "\<lparr>img_url = U, img_md5 = ?md5, img_original_url = None\<rparr>"
  from adm1 checkIPUploadCount_result [of w1 "orElse (cfConnectingIP rq1) ''unknown''" s]
  have sa: "r2 sa = r2 s" "images sa = images s" by auto
  from new sa have new': "find (\<lambda>row. img_md5 row = ?md5) (images sa) = None" by simp
  have "dedupAndStore P w1 (bodyBytes rq1) ct1 None sa = (Inr (JsonSuccess U), s1)"
    using dedupAndStore_miss [OF ok1(2-4) new' ext url(1), of None] sa s1 by simp
  then have first: "uploadFromBody P w1 rq1 s = (Success U, s1)"
    using uploadFromBody_admitted [OF rt1 ct1 sz1 adm1 ok1(1), of P] by simp
  from adm2 checkIPUploadCount_result [of w2 "orElse (cfConnectingIP rq2) ''unknown''" s1]
  have sb: "r2 sb = r2 s1" "images sb = images s1" by auto
  have "find (\<lambda>row. img_md5 row = ?md5) (images sb) = Some ?row"
    using new by (simp add: sb s1 find_append_new)
  then have "dedupAndStore P w2 (bodyBytes rq2) ct2 None sb = (Inr (JsonSuccess U), sb)"
    using dedupAndStore_hit [OF ok2(2), of P "bodyBytes rq2" sb ?row ct2 None] url(2) same
    by simp
  then have second: "uploadFromBody P w2 rq2 s1 = (Success U, sb)"
    using uploadFromBody_admitted [OF rt2 ct2 sz2 adm2 ok2(1), of P] by simp
  from first second sb show ?thesis by simp
qed

lemma uploadFromBody_uploads_admitted:
  assumes "runtimeKey w = ''workerd''"
    and "contentTypeHeader rq = Some ct" "ct \<noteq> []" "startsWith ct ''image/''"
    and "\<not> exceedsLimit (contentLengthHeader rq) (MAX_BODY_SIZE w)"
    and "checkIPUploadCount w (orElse (cfConnectingIP rq) ''unknown'') s = (Inr True, sa)"
  shows "uploads (snd (uploadFromBody P w rq s)) = uploads sa"
proof (cases "rejects w ReadBody")
  case True
  with assms show ?thesis by (simp add: uploadFromBody_def truthy_def)
next
  case False
  have "uploads (snd (uploadFromBody P w rq s))
      = uploads (snd (dedupAndStore P w (bodyBytes rq) ct None sa))"
    by (simp add: uploadFromBody_admitted [OF assms False] split: prod.splits sum.splits)
  then show ?thesis by (simp add: dedupAndStore_uploads)
qed

subsection \<open>The handler cut at its \<open>await\<close>s is the handler\<close>

lemma runBody_Finished: "runBody n P w rq (Finished out, s) = (Finished out, s)"
  by (induction n) simp_all

lemma putStep_then_insert:
  "runBody (Suc 0) P w rq (putStep P w rq ct s)
     = (case storeAndRecord P w (bodyBytes rq) ct None (calculateMD5 P (bodyBytes rq)) s of
          (Inl e, s') \<Rightarrow> (Finished (Throw e), s')
        | (Inr r, s') \<Rightarrow> (Finished (Respond r), s'))"
  by (cases "uploadImageToR2 P w (bodyBytes rq) ct s")
    (auto simp add: putStep_def storeAndRecord_def split: sum.splits)

lemma runBody_Looked:
  "runBody (Suc (Suc 0)) P w rq (Looked ct existingUrl, s)
     = (case existingUrl of
          None \<Rightarrow>
            (case storeAndRecord P w (bodyBytes rq) ct None (calculateMD5 P (bodyBytes rq)) s of
               (Inl e, s') \<Rightarrow> (Finished (Throw e), s')
             | (Inr r, s') \<Rightarrow> (Finished (Respond r), s'))
        | Some u \<Rightarrow>
            if truthy (Some u) then (Finished (Success u), s)
            else
              (case storeAndRecord P w (bodyBytes rq) ct None (calculateMD5 P (bodyBytes rq)) s of
                 (Inl e, s') \<Rightarrow> (Finished (Throw e), s')
               | (Inr r, s') \<Rightarrow> (Finished (Respond r), s')))"
  using putStep_then_insert [of P w rq ct s]
  by (simp split: option.splits)

lemma runBody_Admitted:
  "runBody (Suc (Suc (Suc 0))) P w rq (Admitted ct, s)
     = (if rejects w ReadBody then (Finished (Throw BodyReadFailure), s)
        else
          (case dedupAndStore P w (bodyBytes rq) ct None s of
             (Inl e, s') \<Rightarrow> (Finished (Throw e), s')
           | (Inr r, s') \<Rightarrow> (Finished (Respond r), s')))"
proof -
  have unfold: "runBody (Suc (Suc (Suc 0))) P w rq (Admitted ct, s)
      = runBody (Suc (Suc 0)) P w rq (stepBody P w rq (Admitted ct) s)"
    by simp
  show ?thesis
    unfolding unfold
    by (simp add: runBody_Looked runBody_Finished dedupAndStore_def Let_def del: runBody.simps
        split: sum.splits option.splits)
qed

lemma runBody_Counted:
  assumes "\<not> rejects w D1Count"
  shows "runBody (Suc (Suc (Suc (Suc 0)))) P w rq
       (Counted ct (countUploads (orElse (cfConnectingIP rq) ''unknown'') (today w) s), s)
     = (case checkIPUploadCount w (orElse (cfConnectingIP rq) ''unknown'') s of
          (Inl e, s1) \<Rightarrow> (Finished (Throw e), s1)
        | (Inr False, s1) \<Rightarrow> (Finished RateLimited, s1)
        | (Inr True, s1) \<Rightarrow> runBody (Suc (Suc (Suc 0))) P w rq (Admitted ct, s1))"
proof -
  let ?n = "countUploads (orElse (cfConnectingIP rq) ''unknown'') (today w) s"
  have unfold: "runBody (Suc (Suc (Suc (Suc 0)))) P w rq (Counted ct ?n, s)
      = runBody (Suc (Suc (Suc 0))) P w rq (stepBody P w rq (Counted ct ?n) s)"
    by simp
  show ?thesis
    unfolding unfold using assms
    by (simp add: checkIPUploadCount_def runBody_Finished del: runBody.simps)
qed

lemma runBody_Start:
  "runBody 5 P w rq (Start, s)
     = (Finished (fst (uploadFromBody P w rq s)), snd (uploadFromBody P w rq s))"
proof -
  let ?ip = "orElse (cfConnectingIP rq) ''unknown''"
  have unfold: "runBody 5 P w rq (Start, s)
      = runBody (Suc (Suc (Suc (Suc 0)))) P w rq (stepBody P w rq Start s)"
    by (simp add: eval_nat_numeral)
  show ?thesis
  proof (cases "runtimeKey w = ''workerd''")
    case False
    then show ?thesis
      unfolding unfold by (simp add: uploadFromBody_def runBody_Finished del: runBody.simps)
  next
    case runtime: True
    show ?thesis
    proof (cases "contentTypeHeader rq")
      case None
      with runtime show ?thesis
        unfolding unfold by (simp add: uploadFromBody_def runBody_Finished del: runBody.simps)
    next
      case (Some ct)
      show ?thesis
      proof (cases "\<not> truthy (Some ct) \<or> \<not> startsWith ct ''image/''
          \<or> exceedsLimit (contentLengthHeader rq) (MAX_BODY_SIZE w)")
        case True
        with runtime Some show ?thesis
          unfolding unfold
          by (auto simp add: uploadFromBody_def runBody_Finished simp del: runBody.simps)
      next
        case valid: False
        show ?thesis
        proof (cases "rejects w D1Count")
          case True
          then have "checkIPUploadCount w ?ip s = (Inl D1Failure, s)"
            by (simp add: checkIPUploadCount_def)
          with runtime Some valid True show ?thesis
            unfolding unfold
            by (simp add: uploadFromBody_def runBody_Finished del: runBody.simps)
        next
          case False
          have step: "stepBody P w rq Start s = (Counted ct (countUploads ?ip (today w) s), s)"
            using runtime Some valid False by simp
          show ?thesis
            unfolding unfold step runBody_Counted [OF False] runBody_Admitted
            using runtime Some valid
            by (simp add: uploadFromBody_def split: prod.splits sum.splits bool.splits)
        qed
      qed
    qed
  qed
qed

lemma interleave_append:
  "interleave P A B (xs @ ys) cfg = interleave P A B ys (interleave P A B xs cfg)"
proof (induction xs arbitrary: cfg)
  case Nil
  show ?case by simp
next
  case (Cons turn xs)
  obtain ta tb s where cfg: "cfg = (ta, tb, s)" by (cases cfg) auto
  show ?case by (simp add: cfg Cons split: prod.splits)
qed

lemma interleave_first_only:
  "interleave P A B (replicate n True) (ta, tb, s)
     = (fst (runBody n P (fst A) (snd A) (ta, s)), tb, snd (runBody n P (fst A) (snd A) (ta, s)))"
proof (induction n arbitrary: ta s)
  case 0
  show ?case by simp
next
  case (Suc n)
  show ?case by (simp add: Suc split: prod.splits)
qed

lemma interleave_second_only:
  "interleave P A B (replicate n False) (ta, tb, s)
     = (ta, fst (runBody n P (fst B) (snd B) (tb, s)), snd (runBody n P (fst B) (snd B) (tb, s)))"
proof (induction n arbitrary: tb s)
  case 0
  show ?case by simp
next
  case (Suc n)
  show ?case by (simp add: Suc split: prod.splits)
qed

lemma interleave_sequential:
  "interleave P (wa, rqa) (wb, rqb) (replicate 5 True @ replicate 5 False) (Start, Start, s)
     = (Finished (fst (uploadFromBody P wa rqa s)),
        Finished (fst (uploadFromBody P wb rqb (snd (uploadFromBody P wa rqa s)))),
        snd (uploadFromBody P wb rqb (snd (uploadFromBody P wa rqa s))))"
  by (simp add: interleave_append interleave_first_only interleave_second_only runBody_Start)

subsection \<open>Evaluation at the concrete inputs\<close>

lemmas parse_defs = parseInt_def stripSign_def stripRadix_def startsWith_def
  isWhiteSpace_def digitValue_def

lemmas handler_defs = uploadFromBody_def uploadFromUrl_def fetchAndStore_def dedupAndStore_def
  storeAndRecord_def uploadImageToR2_def checkFileExists_def checkIPUploadCount_def
  countUploads_def exceedsLimit_def getFileExtension_def objectKey_def templateString_def
  r2Put_def truthy_def orElse_def jsonTruthy_def urlProperty_def jsGreater_def jsGreaterEq_def
  mimeTypeMap_def calculateMD5_def Let_def

lemmas demo_defs = calculateMD5_def demoPlatform_def demoWorld_def demoRequest_def
  demoUrlRequest_def
  emptyState_def demoStoredState_def demoFullState_def demoKey_def demoUrl_def

lemma demo_limit: "parseInt (MAX_UPLOAD_COUNT demoWorld) = Some 2"
  by (simp add: demoWorld_def parse_defs)

lemma safeInteger_small: "safeInteger 1" "safeInteger 2"
  by (simp_all add: safeInteger_def)

section \<open>The content type table\<close>

text \<open>
  Claim C8, as amended. \<open>getFileExtension\<close> maps the seven recognised content types to
  their extensions (\<open>image/jpeg\<close> to \<open>jpg\<close>, \<open>image/svg+xml\<close> to \<open>svg\<close>, the others to
  their subtype). Every other content type that is not empty and does not name a
  member inherited from \<open>Object.prototype\<close> gives the sentinel \<open>unknown\<close>. A content
  type that is \<open>null\<close> or the empty string fails with the \<open>Content-Type is required\<close>
  error: the guard is \<open>!contentType\<close>, which the empty string passes too.
\<close>

theorem getFileExtension_table:
  "getFileExtension (Some ''image/jpeg'') = Inr (Str ''jpg'')
   \<and> getFileExtension (Some ''image/png'') = Inr (Str ''png'')
   \<and> getFileExtension (Some ''image/gif'') = Inr (Str ''gif'')
   \<and> getFileExtension (Some ''image/webp'') = Inr (Str ''webp'')
   \<and> getFileExtension (Some ''image/bmp'') = Inr (Str ''bmp'')
   \<and> getFileExtension (Some ''image/tiff'') = Inr (Str ''tiff'')
   \<and> getFileExtension (Some ''image/svg+xml'') = Inr (Str ''svg'')
   \<and> (\<forall>ct. ct \<noteq> [] \<and> ct \<notin> set (map fst mimeTypeMap) \<and> ct \<notin> set objectPrototypeMembers
          \<longrightarrow> getFileExtension (Some ct) = Inr (Str ''unknown''))
   \<and> getFileExtension None = Inl ContentTypeRequired
   \<and> getFileExtension (Some []) = Inl ContentTypeRequired"
proof -
  have known: "getFileExtension (Some ''image/jpeg'') = Inr (Str ''jpg'')"
    "getFileExtension (Some ''image/png'') = Inr (Str ''png'')"
    "getFileExtension (Some ''image/gif'') = Inr (Str ''gif'')"
    "getFileExtension (Some ''image/webp'') = Inr (Str ''webp'')"
    "getFileExtension (Some ''image/bmp'') = Inr (Str ''bmp'')"
    "getFileExtension (Some ''image/tiff'') = Inr (Str ''tiff'')"
    "getFileExtension (Some ''image/svg+xml'') = Inr (Str ''svg'')"
    by (simp_all add: getFileExtension_def truthy_def mimeTypeMap_def)
  have other: "getFileExtension (Some ct) = Inr (Str ''unknown'')"
    if "ct \<noteq> []" "ct \<notin> set (map fst mimeTypeMap)" "ct \<notin> set objectPrototypeMembers" for ct
  proof -
    from that(2) have "map_of mimeTypeMap ct = None"
      by (simp add: map_of_eq_None_iff)
    with that(1,3) show ?thesis
      by (simp add: getFileExtension_def truthy_def)
  qed
  have missing: "getFileExtension None = Inl ContentTypeRequired"
    "getFileExtension (Some []) = Inl ContentTypeRequired"
    by (simp_all add: getFileExtension_def truthy_def)
  from known other missing show ?thesis by blast
qed

text \<open>The content type \<open>image/xyz\<close> of the specification meets the three conditions.\<close>

theorem getFileExtension_table_witness:
  "''image/xyz'' \<noteq> [] \<and> ''image/xyz'' \<notin> set (map fst mimeTypeMap)
   \<and> ''image/xyz'' \<notin> set objectPrototypeMembers
   \<and> getFileExtension (Some ''image/xyz'') = Inr (Str ''unknown'')"
proof -
  have h: "''image/xyz'' \<noteq> [] \<and> ''image/xyz'' \<notin> set (map fst mimeTypeMap)
      \<and> ''image/xyz'' \<notin> set objectPrototypeMembers"
    by (simp add: mimeTypeMap_def objectPrototypeMembers_def)
  with getFileExtension_table show ?thesis by blast
qed

text \<open>
  Claim C8 as stated fails at the empty string: it is a content type that is not
  \<open>null\<close> and is outside the recognised set, and the function throws instead of
  returning \<open>unknown\<close>.
\<close>

theorem getFileExtension_empty_counterexample:
  "[] \<notin> set (map fst mimeTypeMap)
   \<and> getFileExtension (Some []) = Inl ContentTypeRequired
   \<and> getFileExtension (Some []) \<noteq> Inr (Str ''unknown'')"
  by (simp add: getFileExtension_def truthy_def mimeTypeMap_def)

section \<open>The size ceiling of \<open>/upload-from-body\<close>\<close>

text \<open>
  Claim C7. On the Workers runtime, a request to \<open>/upload-from-body\<close> with an image
  content type (\<open>image/png\<close> among them) whose \<open>content-length\<close> header declares more
  than \<open>MAX_BODY_SIZE\<close> is answered with status 400 and the body
  \<open>{error: "Image size exceeds the limit"}\<close>. The stores are left as they were, and
  the answer is the same whatever the body is and whichever later call would reject:
  the body is not read and nothing is stored.
\<close>

theorem uploadFromBody_too_large:
  assumes runtime: "runtimeKey w = ''workerd''"
    and ctype: "contentTypeHeader rq = Some ct" "ct \<noteq> []" "startsWith ct ''image/''"
    and clen: "contentLengthHeader rq = Some cl" "parseInt cl = Some n"
    and limit: "parseInt (MAX_BODY_SIZE w) = Some m"
    and safe: "safeInteger n" "safeInteger m"
    and over: "m < n"
  shows "uploadFromBody P w rq s = (TooLarge, s)
    \<and> uploadFromBody P (w\<lparr>rejects := r\<rparr>) (rq\<lparr>bodyBytes := b\<rparr>) s
        = (TooLarge, s)"
proof -
  have ex: "exceedsLimit (contentLengthHeader rq) (MAX_BODY_SIZE w)"
    using clen limit over by (simp add: exceedsLimit_greater)
  show ?thesis
    using runtime ctype ex by (simp add: uploadFromBody_def truthy_def)
qed

text \<open>The scenario of the specification: 10485761 declared against a ceiling of 10485760.\<close>

theorem uploadFromBody_too_large_witness:
  "parseInt ''10485761'' = Some 10485761 \<and> parseInt (MAX_BODY_SIZE demoWorld) = Some 10485760
   \<and> safeInteger 10485761 \<and> safeInteger 10485760
   \<and> uploadFromBody demoPlatform demoWorld
        (demoRequest\<lparr>contentLengthHeader := Some ''10485761''\<rparr>) emptyState
      = (TooLarge, emptyState)"
proof -
  let ?rq = "demoRequest\<lparr>contentLengthHeader := Some ''10485761''\<rparr>"
  have p1: "parseInt ''10485761'' = Some 10485761"
    by (simp add: parseInt_def stripSign_def stripRadix_def startsWith_def
        isWhiteSpace_def digitValue_def)
  have p2: "parseInt (MAX_BODY_SIZE demoWorld) = Some 10485760"
    by (simp add: demoWorld_def parseInt_def stripSign_def stripRadix_def startsWith_def
        isWhiteSpace_def digitValue_def)
  have s1: "safeInteger 10485761" and s2: "safeInteger 10485760"
    by (simp_all add: safeInteger_def)
  have r: "runtimeKey demoWorld = ''workerd''" by (simp add: demoWorld_def)
  have c: "contentTypeHeader ?rq = Some ''image/png''" "''image/png'' \<noteq> []"
    "startsWith ''image/png'' ''image/''"
    by (simp_all add: demoRequest_def startsWith_def)
  have l: "contentLengthHeader ?rq = Some ''10485761''" by simp
  have "(10485760::int) < 10485761" by simp
  from uploadFromBody_too_large [OF r c l p1 p2 s1 s2 this] p1 p2 s1 s2
  show ?thesis by blast
qed

section \<open>Admission under the daily quota\<close>

text \<open>
  Claim C2. Let the two statements of \<open>checkIPUploadCount\<close> succeed and let
  \<open>MAX_UPLOAD_COUNT\<close> parse to the number \<open>m\<close>, one that JavaScript represents
  exactly. While the count of rows of \<open>uploads\<close>
  for the identifier and the current day is below \<open>m\<close>, admission returns true and
  appends one row for that identifier and day: its count grows by exactly one and no
  other count changes. Once the count has reached \<open>m\<close>, admission returns false and
  leaves the stores as they were, and a request that reaches admission is answered
  with status 429 on both entry points, whatever its body or URL is.
\<close>

theorem admission_quota:
  assumes d1: "\<not> rejects w D1Count" "\<not> rejects w D1InsertUpload"
    and mx: "parseInt (MAX_UPLOAD_COUNT w) = Some m" "safeInteger m"
  shows "(int (countUploads ip (today w) s) < m \<longrightarrow>
            checkIPUploadCount w ip s = (Inr True, s\<lparr>uploads := uploads s @ [(ip, today w)]\<rparr>)
          \<and> countUploads ip (today w) (snd (checkIPUploadCount w ip s))
              = countUploads ip (today w) s + 1
          \<and> (\<forall>ip' d'. (ip', d') \<noteq> (ip, today w) \<longrightarrow>
                countUploads ip' d' (snd (checkIPUploadCount w ip s)) = countUploads ip' d' s))
       \<and> (m \<le> int (countUploads ip (today w) s) \<longrightarrow>
            checkIPUploadCount w ip s = (Inr False, s)
          \<and> (runtimeKey w = ''workerd'' \<and> contentTypeHeader rq = Some ct \<and> ct \<noteq> []
               \<and> startsWith ct ''image/''
               \<and> \<not> exceedsLimit (contentLengthHeader rq) (MAX_BODY_SIZE w)
               \<and> orElse (cfConnectingIP rq) ''unknown'' = ip \<longrightarrow>
                 uploadFromBody P w rq s = (RateLimited, s))
          \<and> (runtimeKey w = ''workerd'' \<and> jsonBody rq' = Some j \<and> jsonTruthy (urlProperty j)
               \<and> orElse (cfConnectingIP rq') ''unknown'' = ip \<longrightarrow>
                 uploadFromUrl P w rq' s = (RateLimited, s)))"
proof (intro conjI impI)
  assume under: "int (countUploads ip (today w) s) < m"
  show adm: "checkIPUploadCount w ip s = (Inr True, s\<lparr>uploads := uploads s @ [(ip, today w)]\<rparr>)"
    using d1 mx(1) under by (rule checkIPUploadCount_admit)
  show "countUploads ip (today w) (snd (checkIPUploadCount w ip s))
      = countUploads ip (today w) s + 1"
    by (simp add: adm countUploads_append)
  show "\<forall>ip' d'. (ip', d') \<noteq> (ip, today w) \<longrightarrow>
      countUploads ip' d' (snd (checkIPUploadCount w ip s)) = countUploads ip' d' s"
    by (auto simp add: adm countUploads_append)
next
  assume full: "m \<le> int (countUploads ip (today w) s)"
  show ref: "checkIPUploadCount w ip s = (Inr False, s)"
    using d1(1) mx(1) full by (rule checkIPUploadCount_refuse)
  { assume "runtimeKey w = ''workerd'' \<and> contentTypeHeader rq = Some ct \<and> ct \<noteq> []
        \<and> startsWith ct ''image/''
        \<and> \<not> exceedsLimit (contentLengthHeader rq) (MAX_BODY_SIZE w)
        \<and> orElse (cfConnectingIP rq) ''unknown'' = ip"
    then show "uploadFromBody P w rq s = (RateLimited, s)"
      using ref by (simp add: uploadFromBody_refused) }
  { assume "runtimeKey w = ''workerd'' \<and> jsonBody rq' = Some j \<and> jsonTruthy (urlProperty j)
        \<and> orElse (cfConnectingIP rq') ''unknown'' = ip"
    then show "uploadFromUrl P w rq' s = (RateLimited, s)"
      using ref by (simp add: uploadFromUrl_refused) }
qed

text \<open>
  Under the quota: the client of \<open>demoStoredState\<close> has one admission of two. At the
  quota: in \<open>demoFullState\<close> it has two, and both entry points answer 429.
\<close>

theorem admission_quota_witness:
  "checkIPUploadCount demoWorld ''203.0.113.7'' demoStoredState
     = (Inr True, demoStoredState\<lparr>uploads := uploads demoStoredState
           @ [(''203.0.113.7'', today demoWorld)]\<rparr>)
   \<and> countUploads ''203.0.113.7'' (today demoWorld)
        (snd (checkIPUploadCount demoWorld ''203.0.113.7'' demoStoredState)) = 2
   \<and> checkIPUploadCount demoWorld ''203.0.113.7'' demoFullState = (Inr False, demoFullState)
   \<and> uploadFromBody demoPlatform demoWorld demoRequest demoFullState
       = (RateLimited, demoFullState)
   \<and> uploadFromUrl demoPlatform demoWorld (demoUrlRequest ''https://example.org/a.png'')
        demoFullState
       = (RateLimited, demoFullState)"
proof -
  let ?ip = "''203.0.113.7''"
  let ?full = "demoFullState"
  let ?rq = "demoUrlRequest ''https://example.org/a.png''"
  have d1: "\<not> rejects demoWorld D1Count" "\<not> rejects demoWorld D1InsertUpload"
    by (simp_all add: demoWorld_def)
  have c1: "int (countUploads ?ip (today demoWorld) demoStoredState) < 2"
    by (simp add: countUploads_def demoStoredState_def demoWorld_def)
  have c2: "2 \<le> int (countUploads ?ip (today demoWorld) ?full)"
    by (simp add: countUploads_def demoWorld_def demoFullState_def)
  have body: "runtimeKey demoWorld = ''workerd'' \<and> contentTypeHeader demoRequest = Some ''image/png''
      \<and> ''image/png'' \<noteq> [] \<and> startsWith ''image/png'' ''image/''
      \<and> \<not> exceedsLimit (contentLengthHeader demoRequest) (MAX_BODY_SIZE demoWorld)
      \<and> orElse (cfConnectingIP demoRequest) ''unknown'' = ?ip"
    by (simp add: demoWorld_def demoRequest_def exceedsLimit_def truthy_def jsGreater_def
        orElse_def parse_defs)
  have url: "runtimeKey demoWorld = ''workerd''
      \<and> jsonBody ?rq = Some (JObject [(''url'', JString ''https://example.org/a.png'')])
      \<and> jsonTruthy (urlProperty (JObject [(''url'', JString ''https://example.org/a.png'')]))
      \<and> orElse (cfConnectingIP ?rq) ''unknown'' = ?ip"
    by (simp add: demoWorld_def demoUrlRequest_def urlProperty_def jsonTruthy_def
        orElse_def truthy_def)
  from admission_quota [OF d1 demo_limit safeInteger_small(2), where ip = ?ip
      and s = demoStoredState] c1
  have under: "checkIPUploadCount demoWorld ?ip demoStoredState
      = (Inr True, demoStoredState\<lparr>uploads := uploads demoStoredState @ [(?ip, today demoWorld)]\<rparr>)"
    "countUploads ?ip (today demoWorld) (snd (checkIPUploadCount demoWorld ?ip demoStoredState))
      = countUploads ?ip (today demoWorld) demoStoredState + 1"
    by blast+
  have one: "countUploads ?ip (today demoWorld) demoStoredState = 1"
    by (simp add: countUploads_def demoStoredState_def demoWorld_def)
  from admission_quota [OF d1 demo_limit safeInteger_small(2), where ip = ?ip and s = ?full
      and rq = demoRequest
      and ct = "''image/png''" and P = demoPlatform and rq' = ?rq
      and j = "JObject [(''url'', JString ''https://example.org/a.png'')]"] c2 body url
  have full: "checkIPUploadCount demoWorld ?ip ?full = (Inr False, ?full)"
    "uploadFromBody demoPlatform demoWorld demoRequest ?full = (RateLimited, ?full)"
    "uploadFromUrl demoPlatform demoWorld ?rq ?full = (RateLimited, ?full)"
    by blast+
  from under one full show ?thesis by simp
qed

section \<open>Which requests are charged\<close>

text \<open>
  Claim C3, as amended. On \<open>/upload-from-body\<close> a request answered with
  \<open>RateLimited\<close>, \<open>InvalidFormat\<close> or \<open>TooLarge\<close> leaves the stores, and so the
  admission counter, unchanged. On \<open>/upload-from-url\<close> that holds for \<open>RateLimited\<close>;
  the content type and the declared length are those of the fetched response, and the
  fetch comes after admission, so a request answered with \<open>InvalidFormat\<close> or
  \<open>TooLarge\<close> there has been charged once. On both entry points a request answered
  with success has been charged exactly once.
\<close>

theorem rejection_and_charging:
  "(fst (uploadFromBody P w rq s) = RateLimited \<or> fst (uploadFromBody P w rq s) = InvalidFormat
      \<or> fst (uploadFromBody P w rq s) = TooLarge
        \<longrightarrow> snd (uploadFromBody P w rq s) = s)
   \<and> ((\<exists>u. fst (uploadFromBody P w rq s) = Success u)
        \<longrightarrow> uploads (snd (uploadFromBody P w rq s))
              = uploads s @ [(orElse (cfConnectingIP rq) ''unknown'', today w)])
   \<and> (fst (uploadFromUrl P w rq' s) = RateLimited \<longrightarrow> snd (uploadFromUrl P w rq' s) = s)
   \<and> (fst (uploadFromUrl P w rq' s) = InvalidFormat \<or> fst (uploadFromUrl P w rq' s) = TooLarge
      \<or> (\<exists>u. fst (uploadFromUrl P w rq' s) = Success u)
        \<longrightarrow> uploads (snd (uploadFromUrl P w rq' s))
              = uploads s @ [(orElse (cfConnectingIP rq') ''unknown'', today w)])"
proof (intro conjI impI)
  assume "fst (uploadFromBody P w rq s) = RateLimited \<or> fst (uploadFromBody P w rq s) = InvalidFormat
      \<or> fst (uploadFromBody P w rq s) = TooLarge"
  then show "snd (uploadFromBody P w rq s) = s"
    by (auto intro: uploadFromBody_error_state)
next
  assume "\<exists>u. fst (uploadFromBody P w rq s) = Success u"
  then show "uploads (snd (uploadFromBody P w rq s))
      = uploads s @ [(orElse (cfConnectingIP rq) ''unknown'', today w)]"
    by (auto intro: uploadFromBody_success_charged)
next
  assume "fst (uploadFromUrl P w rq' s) = RateLimited"
  then show "snd (uploadFromUrl P w rq' s) = s" by (rule uploadFromUrl_limited_state)
next
  assume "fst (uploadFromUrl P w rq' s) = InvalidFormat \<or> fst (uploadFromUrl P w rq' s) = TooLarge
      \<or> (\<exists>u. fst (uploadFromUrl P w rq' s) = Success u)"
  then show "uploads (snd (uploadFromUrl P w rq' s))
      = uploads s @ [(orElse (cfConnectingIP rq') ''unknown'', today w)]"
    by (rule uploadFromUrl_charged)
qed

text \<open>
  One request for each of the four parts: a body with content type \<open>text/plain\<close>, a
  URL request at the quota, the ingestion of \<open>demoRequest\<close>, and a URL whose response
  declares 99999999 bytes.
\<close>

theorem rejection_and_charging_witness:
  "fst (uploadFromBody demoPlatform demoWorld
          (demoRequest\<lparr>contentTypeHeader := Some ''text/plain''\<rparr>) demoStoredState) = InvalidFormat
   \<and> snd (uploadFromBody demoPlatform demoWorld
          (demoRequest\<lparr>contentTypeHeader := Some ''text/plain''\<rparr>) demoStoredState) = demoStoredState
   \<and> fst (uploadFromUrl demoPlatform demoWorld (demoUrlRequest ''https://example.org/a.png'')
          demoFullState) = RateLimited
   \<and> snd (uploadFromUrl demoPlatform demoWorld (demoUrlRequest ''https://example.org/a.png'')
          demoFullState) = demoFullState
   \<and> fst (uploadFromBody demoPlatform demoWorld demoRequest emptyState) = Success demoUrl
   \<and> uploads (snd (uploadFromBody demoPlatform demoWorld demoRequest emptyState))
        = uploads emptyState @ [(''203.0.113.7'', ''2024-05-01'')]
   \<and> fst (uploadFromUrl demoPlatform
          (demoWorld\<lparr>fetch := (\<lambda>u. FetchResponse (Some ''image/png'') (Some ''99999999'') None)\<rparr>)
          (demoUrlRequest ''https://example.org/a.png'') emptyState) = TooLarge
   \<and> uploads (snd (uploadFromUrl demoPlatform
          (demoWorld\<lparr>fetch := (\<lambda>u. FetchResponse (Some ''image/png'') (Some ''99999999'') None)\<rparr>)
          (demoUrlRequest ''https://example.org/a.png'') emptyState))
        = uploads emptyState @ [(''203.0.113.7'', ''2024-05-01'')]"
proof -
  let ?bad = "demoRequest\<lparr>contentTypeHeader := Some ''text/plain''\<rparr>"
  let ?rq = "demoUrlRequest ''https://example.org/a.png''"
  let ?w = "demoWorld\<lparr>fetch := (\<lambda>u. FetchResponse (Some ''image/png'') (Some ''99999999'') None)\<rparr>"
  have a: "fst (uploadFromBody demoPlatform demoWorld ?bad demoStoredState) = InvalidFormat"
    by (simp add: handler_defs demo_defs parse_defs)
  have b: "fst (uploadFromUrl demoPlatform demoWorld ?rq demoFullState) = RateLimited"
    by (simp add: handler_defs demo_defs parse_defs)
  have c: "fst (uploadFromBody demoPlatform demoWorld demoRequest emptyState) = Success demoUrl"
    by (simp add: handler_defs demo_defs parse_defs)
  have d: "fst (uploadFromUrl demoPlatform ?w ?rq emptyState) = TooLarge"
    by (simp add: handler_defs demo_defs parse_defs)
  have ip: "orElse (cfConnectingIP demoRequest) ''unknown'' = ''203.0.113.7''"
    "orElse (cfConnectingIP ?rq) ''unknown'' = ''203.0.113.7''"
    "today demoWorld = ''2024-05-01''" "today ?w = ''2024-05-01''"
    by (simp_all add: orElse_def truthy_def demo_defs)
  from rejection_and_charging [where P = demoPlatform and w = demoWorld and rq = ?bad
      and s = demoStoredState] a
  have a': "snd (uploadFromBody demoPlatform demoWorld ?bad demoStoredState) = demoStoredState"
    by blast
  from rejection_and_charging [where P = demoPlatform and w = demoWorld and rq' = ?rq
      and s = demoFullState] b
  have b': "snd (uploadFromUrl demoPlatform demoWorld ?rq demoFullState) = demoFullState"
    by blast
  from rejection_and_charging [where P = demoPlatform and w = demoWorld and rq = demoRequest
      and s = emptyState] c ip
  have c': "uploads (snd (uploadFromBody demoPlatform demoWorld demoRequest emptyState))
      = uploads emptyState @ [(''203.0.113.7'', ''2024-05-01'')]"
    by auto
  from rejection_and_charging [where P = demoPlatform and w = ?w and rq' = ?rq
      and s = emptyState] d ip
  have d': "uploads (snd (uploadFromUrl demoPlatform ?w ?rq emptyState))
      = uploads emptyState @ [(''203.0.113.7'', ''2024-05-01'')]"
    by auto
  from a a' b b' c c' d d' show ?thesis by blast
qed

text \<open>
  Claim C3 as stated fails on \<open>/upload-from-url\<close>: the response to the fetch has the
  content type \<open>text/html\<close>, the request is rejected with \<open>InvalidFormat\<close>, and the
  count of the client has gone from 0 to 1.
\<close>

theorem charged_before_validation_counterexample:
  "uploadFromUrl demoPlatform
      (demoWorld\<lparr>fetch := (\<lambda>u. FetchResponse (Some ''text/html'') None (Some []))\<rparr>)
      (demoUrlRequest ''https://example.org/page'') emptyState
     = (InvalidFormat,
        emptyState\<lparr>uploads := [(''203.0.113.7'', ''2024-05-01'')],
                    fetched := [''https://example.org/page'']\<rparr>)
   \<and> countUploads ''203.0.113.7'' ''2024-05-01'' emptyState = 0
   \<and> countUploads ''203.0.113.7'' ''2024-05-01''
        (snd (uploadFromUrl demoPlatform
           (demoWorld\<lparr>fetch := (\<lambda>u. FetchResponse (Some ''text/html'') None (Some []))\<rparr>)
           (demoUrlRequest ''https://example.org/page'') emptyState)) = 1"
  by (simp add: handler_defs demo_defs parse_defs)

section \<open>A URL under the base URL\<close>

text \<open>
  Claim C5, as amended. On the Workers runtime, for a request to \<open>/upload-from-url\<close>
  whose \<open>url\<close> starts with \<open>R2_BASE_URL\<close>: when the client is admitted, the endpoint
  returns that URL unchanged as a success, with no outbound fetch, no write to the
  bucket and no row added to \<open>images\<close>; when admission refuses the client, the answer
  is \<open>RateLimited\<close>. Admission comes before the test of the URL.
\<close>

theorem own_url_short_circuit:
  assumes runtime: "runtimeKey w = ''workerd''"
    and body: "jsonBody rq = Some j" "urlProperty j = Some (JString u)" "u \<noteq> []"
    and own: "startsWith u (R2_BASE_URL w)"
  shows "(checkIPUploadCount w (orElse (cfConnectingIP rq) ''unknown'') s = (Inr True, s1) \<longrightarrow>
            uploadFromUrl P w rq s = (Success u, s1)
            \<and> r2 s1 = r2 s \<and> images s1 = images s \<and> fetched s1 = fetched s)
       \<and> (fst (checkIPUploadCount w (orElse (cfConnectingIP rq) ''unknown'') s) = Inr False \<longrightarrow>
            uploadFromUrl P w rq s = (RateLimited, s))"
proof (intro conjI impI)
  let ?ip = "orElse (cfConnectingIP rq) ''unknown''"
  assume adm: "checkIPUploadCount w ?ip s = (Inr True, s1)"
  show "uploadFromUrl P w rq s = (Success u, s1)"
    using runtime body own adm by (simp add: uploadFromUrl_def jsonTruthy_def)
  from adm checkIPUploadCount_result [of w ?ip s]
  have s1: "s1 = s\<lparr>uploads := uploads s @ [(?ip, today w)]\<rparr>" by auto
  show "r2 s1 = r2 s" "images s1 = images s" "fetched s1 = fetched s"
    by (simp_all add: s1)
next
  let ?ip = "orElse (cfConnectingIP rq) ''unknown''"
  assume "fst (checkIPUploadCount w ?ip s) = Inr False"
  with checkIPUploadCount_result [of w ?ip s]
  have "checkIPUploadCount w ?ip s = (Inr False, s)" by auto
  then show "uploadFromUrl P w rq s = (RateLimited, s)"
    using runtime body by (simp add: uploadFromUrl_def jsonTruthy_def)
qed

text \<open>
  The URL returned for \<open>demoRequest\<close> is sent back: with one admission left it is
  echoed, at the quota it is refused.
\<close>

theorem own_url_short_circuit_witness:
  "startsWith demoUrl (R2_BASE_URL demoWorld)
   \<and> checkIPUploadCount demoWorld ''203.0.113.7'' demoStoredState = (Inr True, demoFullState)
   \<and> uploadFromUrl demoPlatform demoWorld (demoUrlRequest demoUrl) demoStoredState
       = (Success demoUrl, demoFullState)
   \<and> r2 demoFullState = r2 demoStoredState \<and> images demoFullState = images demoStoredState
   \<and> fetched demoFullState = fetched demoStoredState
   \<and> fst (checkIPUploadCount demoWorld ''203.0.113.7'' demoFullState) = Inr False
   \<and> uploadFromUrl demoPlatform demoWorld (demoUrlRequest demoUrl) demoFullState
       = (RateLimited, demoFullState)"
proof -
  let ?rq = "demoUrlRequest demoUrl"
  have r: "runtimeKey demoWorld = ''workerd''" by (simp add: demoWorld_def)
  have b: "jsonBody ?rq = Some (JObject [(''url'', JString demoUrl)])"
    "urlProperty (JObject [(''url'', JString demoUrl)]) = Some (JString demoUrl)"
    "demoUrl \<noteq> []"
    by (simp_all add: demoUrlRequest_def urlProperty_demo demoUrl_def)
  have o: "startsWith demoUrl (R2_BASE_URL demoWorld)"
    by (simp add: startsWith_def demoUrl_def demoWorld_def)
  have ip: "orElse (cfConnectingIP ?rq) ''unknown'' = ''203.0.113.7''"
    by (simp add: orElse_def truthy_def demoUrlRequest_def)
  have adm: "checkIPUploadCount demoWorld ''203.0.113.7'' demoStoredState = (Inr True, demoFullState)"
    by (simp add: checkIPUploadCount_def countUploads_def jsGreaterEq_def demo_defs parse_defs)
  have ref: "fst (checkIPUploadCount demoWorld ''203.0.113.7'' demoFullState) = Inr False"
    by (simp add: checkIPUploadCount_def countUploads_def jsGreaterEq_def demo_defs parse_defs)
  from own_url_short_circuit [OF r b o, where s = demoStoredState and ?s1.0 = demoFullState
      and P = demoPlatform] adm ip
  have one: "uploadFromUrl demoPlatform demoWorld ?rq demoStoredState = (Success demoUrl, demoFullState)
      \<and> r2 demoFullState = r2 demoStoredState \<and> images demoFullState = images demoStoredState
      \<and> fetched demoFullState = fetched demoStoredState"
    by simp
  from own_url_short_circuit [OF r b o, where s = demoFullState and P = demoPlatform] ref ip
  have two: "uploadFromUrl demoPlatform demoWorld ?rq demoFullState = (RateLimited, demoFullState)"
    by simp
  from o adm one ref two show ?thesis by blast
qed

text \<open>
  Claim C5 as stated fails for a client at its quota: the URL is the one recorded in
  \<open>images\<close>, it starts with the base URL, and the answer is 429 instead of the URL.
\<close>

theorem own_url_rate_limited_counterexample:
  "img_url (hd (images demoFullState)) = demoUrl
   \<and> startsWith demoUrl (R2_BASE_URL demoWorld)
   \<and> uploadFromUrl demoPlatform demoWorld (demoUrlRequest demoUrl) demoFullState
       = (RateLimited, demoFullState)
   \<and> uploadFromUrl demoPlatform demoWorld (demoUrlRequest demoUrl) demoFullState
       \<noteq> (Success demoUrl, demoFullState)"
  by (simp add: handler_defs demo_defs parse_defs)

text \<open>
  Claim C9. On the Workers runtime, a request to \<open>/upload-from-url\<close> whose \<open>url\<close> is
  a non-empty string that starts with \<open>R2_BASE_URL\<close>, from a client under its quota,
  is answered with success and that same string. The only change to the stores is the
  row of \<open>uploads\<close> that admission appends: the client has used one unit of its quota,
  nothing was fetched, stored or indexed, and whether an object exists at the URL
  plays no part. The answer is the same when every fetch, lookup, store and index
  write would fail, so none of them is attempted.
\<close>

theorem base_prefix_echoed:
  assumes runtime: "runtimeKey w = ''workerd''"
    and body: "jsonBody rq = Some j" "urlProperty j = Some (JString u)" "u \<noteq> []"
    and pre: "startsWith u (R2_BASE_URL w)"
    and d1: "\<not> rejects w D1Count" "\<not> rejects w D1InsertUpload"
    and quota: "parseInt (MAX_UPLOAD_COUNT w) = Some m"
      "int (countUploads (orElse (cfConnectingIP rq) ''unknown'') (today w) s) < m"
    and safe: "safeInteger m"
  shows "uploadFromUrl P w rq s
      = (Success u, s\<lparr>uploads := uploads s @ [(orElse (cfConnectingIP rq) ''unknown'', today w)]\<rparr>)
    \<and> uploadFromUrl P'
        (w\<lparr>fetch := (\<lambda>x. FetchRejects),
           rejects := (\<lambda>call. call \<noteq> D1Count \<and> call \<noteq> D1InsertUpload)\<rparr>) rq s
      = (Success u, s\<lparr>uploads := uploads s @ [(orElse (cfConnectingIP rq) ''unknown'', today w)]\<rparr>)"
proof
  let ?ip = "orElse (cfConnectingIP rq) ''unknown''"
  have "checkIPUploadCount w ?ip s = (Inr True, s\<lparr>uploads := uploads s @ [(?ip, today w)]\<rparr>)"
    using d1 quota by (rule checkIPUploadCount_admit)
  then show "uploadFromUrl P w rq s = (Success u, s\<lparr>uploads := uploads s @ [(?ip, today w)]\<rparr>)"
    using runtime body pre by (simp add: uploadFromUrl_def jsonTruthy_def)
next
  let ?ip = "orElse (cfConnectingIP rq) ''unknown''"
  let ?w = "w\<lparr>fetch := (\<lambda>x. FetchRejects),
           rejects := (\<lambda>call. call \<noteq> D1Count \<and> call \<noteq> D1InsertUpload)\<rparr>"
  have "checkIPUploadCount ?w ?ip s = (Inr True, s\<lparr>uploads := uploads s @ [(?ip, today ?w)]\<rparr>)"
    using quota by (intro checkIPUploadCount_admit [where m = m]) simp_all
  then show "uploadFromUrl P' ?w rq s = (Success u, s\<lparr>uploads := uploads s @ [(?ip, today w)]\<rparr>)"
    using runtime body pre by (simp add: uploadFromUrl_def jsonTruthy_def)
qed

text \<open>A URL under the base URL at which nothing was ever stored: both stores are empty.\<close>

theorem base_prefix_echoed_witness:
  "startsWith ''https://r2.test/never-stored'' (R2_BASE_URL demoWorld)
   \<and> int (countUploads ''203.0.113.7'' (today demoWorld) emptyState) < 2
   \<and> r2 emptyState = [] \<and> images emptyState = []
   \<and> uploadFromUrl demoPlatform demoWorld (demoUrlRequest ''https://r2.test/never-stored'') emptyState
      = (Success ''https://r2.test/never-stored'',
         emptyState\<lparr>uploads := uploads emptyState @ [(''203.0.113.7'', today demoWorld)]\<rparr>)"
proof -
  let ?u = "''https://r2.test/never-stored''"
  let ?rq = "demoUrlRequest ?u"
  have r: "runtimeKey demoWorld = ''workerd''" by (simp add: demoWorld_def)
  have b: "jsonBody ?rq = Some (JObject [(''url'', JString ?u)])"
    "urlProperty (JObject [(''url'', JString ?u)]) = Some (JString ?u)" "?u \<noteq> []"
    by (simp_all add: demoUrlRequest_def urlProperty_demo)
  have o: "startsWith ?u (R2_BASE_URL demoWorld)"
    by (simp add: startsWith_def demoWorld_def)
  have d: "\<not> rejects demoWorld D1Count" "\<not> rejects demoWorld D1InsertUpload"
    by (simp_all add: demoWorld_def)
  have ip: "orElse (cfConnectingIP ?rq) ''unknown'' = ''203.0.113.7''"
    by (simp add: orElse_def truthy_def demoUrlRequest_def)
  have q: "int (countUploads (orElse (cfConnectingIP ?rq) ''unknown'') (today demoWorld) emptyState) < 2"
    by (simp add: countUploads_def emptyState_def)
  have e: "r2 emptyState = []" "images emptyState = []" by (simp_all add: emptyState_def)
  from base_prefix_echoed [OF r b o d demo_limit q safeInteger_small(2), where P = demoPlatform]
    ip q e o
  show ?thesis by simp
qed

section \<open>Deduplication of sequential uploads\<close>

text \<open>
  Claim C1. Two requests to \<open>/upload-from-body\<close> with the same bytes, one after the
  other, each passing validation and admission, with the calls on the stores
  succeeding. The fingerprint of the bytes is not in \<open>images\<close> before the first
  request, and \<open>U\<close> is the URL built for the new object (a serialised URL is never
  empty). Then the first request stores the object under its key, appends the row
  \<open>(U, md5, NULL)\<close> and returns \<open>U\<close>; the second request finds the fingerprint,
  returns the same \<open>U\<close>, and leaves both the bucket and \<open>images\<close> as the first
  request left them.
\<close>

theorem sequential_dedup:
  fixes P :: platform
  assumes rt1: "runtimeKey w1 = ''workerd''"
    and ct1: "contentTypeHeader rq1 = Some ct1" "ct1 \<noteq> []" "startsWith ct1 ''image/''"
    and sz1: "\<not> exceedsLimit (contentLengthHeader rq1) (MAX_BODY_SIZE w1)"
    and adm1: "checkIPUploadCount w1 (orElse (cfConnectingIP rq1) ''unknown'') s = (Inr True, sa)"
    and ok1: "\<not> rejects w1 ReadBody" "\<not> rejects w1 D1SelectImage" "\<not> rejects w1 R2Put"
      "\<not> rejects w1 D1InsertImage"
    and new: "find (\<lambda>row. img_md5 row = calculateMD5 P (bodyBytes rq1)) (images s) = None"
    and ext: "getFileExtension (Some ct1) = Inr ext"
    and url: "urlWithPathname P (R2_BASE_URL w1) (objectKey w1 ext) = Some U" "U \<noteq> []"
    and s1: "s1 = sa\<lparr>r2 := r2Put (objectKey w1 ext)
                        \<lparr>obj_body = bodyBytes rq1, obj_content_type = ct1\<rparr> (r2 s),
                     images := images s @
                        [\<lparr>img_url = U, img_md5 = calculateMD5 P (bodyBytes rq1),
                          img_original_url = None\<rparr>]\<rparr>"
    and rt2: "runtimeKey w2 = ''workerd''"
    and ct2: "contentTypeHeader rq2 = Some ct2" "ct2 \<noteq> []" "startsWith ct2 ''image/''"
    and sz2: "\<not> exceedsLimit (contentLengthHeader rq2) (MAX_BODY_SIZE w2)"
    and adm2: "checkIPUploadCount w2 (orElse (cfConnectingIP rq2) ''unknown'') s1 = (Inr True, sb)"
    and ok2: "\<not> rejects w2 ReadBody" "\<not> rejects w2 D1SelectImage"
    and same: "bodyBytes rq2 = bodyBytes rq1"
  shows "uploadFromBody P w1 rq1 s = (Success U, s1)
    \<and> uploadFromBody P w2 rq2 s1 = (Success U, sb)
    \<and> r2 sb = r2 s1 \<and> images sb = images s1"
  using assms by (rule two_uploads_same_bytes)

text \<open>
  \<open>demoRequest\<close> twice, five minutes apart: from the empty stores to
  \<open>demoStoredState\<close>, then to \<open>demoFullState\<close>, which differs in \<open>uploads\<close> only.
\<close>

theorem sequential_dedup_witness:
  "uploadFromBody demoPlatform demoWorld demoRequest emptyState = (Success demoUrl, demoStoredState)
   \<and> uploadFromBody demoPlatform
        (demoWorld\<lparr>stamp := ''20240501120500000'', random36 := ''zzzzzzz''\<rparr>)
        demoRequest demoStoredState
      = (Success demoUrl, demoFullState)
   \<and> r2 demoFullState = r2 demoStoredState \<and> images demoFullState = images demoStoredState"
proof -
  let ?w2 = "demoWorld\<lparr>stamp := ''20240501120500000'', random36 := ''zzzzzzz''\<rparr>"
  let ?sa = "emptyState\<lparr>uploads := [(''203.0.113.7'', ''2024-05-01'')]\<rparr>"
  have rt: "runtimeKey demoWorld = ''workerd''" "runtimeKey ?w2 = ''workerd''"
    by (simp_all add: demoWorld_def)
  have ct: "contentTypeHeader demoRequest = Some ''image/png''" "''image/png'' \<noteq> []"
    "startsWith ''image/png'' ''image/''"
    by (simp_all add: demoRequest_def startsWith_def)
  have sz: "\<not> exceedsLimit (contentLengthHeader demoRequest) (MAX_BODY_SIZE demoWorld)"
    "\<not> exceedsLimit (contentLengthHeader demoRequest) (MAX_BODY_SIZE ?w2)"
    by (simp_all add: exceedsLimit_def jsGreater_def truthy_def demo_defs parse_defs)
  have adm1: "checkIPUploadCount demoWorld (orElse (cfConnectingIP demoRequest) ''unknown'')
      emptyState = (Inr True, ?sa)"
    by (simp add: checkIPUploadCount_def countUploads_def jsGreaterEq_def orElse_def truthy_def
        demo_defs parse_defs)
  have adm2: "checkIPUploadCount ?w2 (orElse (cfConnectingIP demoRequest) ''unknown'')
      demoStoredState = (Inr True, demoFullState)"
    by (simp add: checkIPUploadCount_def countUploads_def jsGreaterEq_def orElse_def truthy_def
        demo_defs parse_defs)
  have ok: "\<not> rejects demoWorld ReadBody" "\<not> rejects demoWorld D1SelectImage"
    "\<not> rejects demoWorld R2Put" "\<not> rejects demoWorld D1InsertImage"
    "\<not> rejects ?w2 ReadBody" "\<not> rejects ?w2 D1SelectImage"
    by (simp_all add: demoWorld_def)
  have new: "find (\<lambda>row. img_md5 row = calculateMD5 demoPlatform (bodyBytes demoRequest))
      (images emptyState) = None"
    by (simp add: emptyState_def)
  have ext: "getFileExtension (Some ''image/png'') = Inr (Str ''png'')"
    by (simp add: getFileExtension_def truthy_def mimeTypeMap_def)
  have url: "urlWithPathname demoPlatform (R2_BASE_URL demoWorld) (objectKey demoWorld (Str ''png''))
      = Some demoUrl" "demoUrl \<noteq> []"
    by (simp_all add: objectKey_def templateString_def demo_defs)
  have s1: "demoStoredState = ?sa\<lparr>r2 := r2Put (objectKey demoWorld (Str ''png''))
        \<lparr>obj_body = bodyBytes demoRequest, obj_content_type = ''image/png''\<rparr> (r2 emptyState),
      images := images emptyState @
        [\<lparr>img_url = demoUrl, img_md5 = calculateMD5 demoPlatform (bodyBytes demoRequest),
          img_original_url = None\<rparr>]\<rparr>"
    by (simp add: objectKey_def templateString_def r2Put_def demo_defs)
  from sequential_dedup [OF rt(1) ct sz(1) adm1 ok(1-4) new ext url s1 rt(2) ct sz(2) adm2 ok(5,6)]
  show ?thesis by simp
qed

section \<open>The size ceiling without a declared length\<close>

text \<open>
  Claim C10. The size ceiling is tested only on a truthy \<open>content-length\<close> header.
  When the header of the request to \<open>/upload-from-body\<close>, or of the response fetched
  for \<open>/upload-from-url\<close>, is absent or empty, the answer of the handler does not
  depend on \<open>MAX_BODY_SIZE\<close> and is never \<open>TooLarge\<close>; and for a request that is
  valid and admitted, with a new fingerprint and the calls on the stores succeeding,
  the whole body is stored under the new key and indexed, whatever the ceiling is and
  however long the body is.
\<close>

theorem no_declared_length_no_ceiling:
  "(\<not> truthy (contentLengthHeader rq) \<longrightarrow>
      uploadFromBody P (w\<lparr>MAX_BODY_SIZE := mx\<rparr>) rq s = uploadFromBody P w rq s
      \<and> fst (uploadFromBody P w rq s) \<noteq> TooLarge)
   \<and> (\<not> truthy (contentLengthHeader rq) \<and> runtimeKey w = ''workerd''
       \<and> contentTypeHeader rq = Some ct \<and> ct \<noteq> [] \<and> startsWith ct ''image/''
       \<and> checkIPUploadCount w (orElse (cfConnectingIP rq) ''unknown'') s = (Inr True, sa)
       \<and> \<not> rejects w ReadBody \<and> \<not> rejects w D1SelectImage \<and> \<not> rejects w R2Put
       \<and> \<not> rejects w D1InsertImage
       \<and> find (\<lambda>row. img_md5 row = calculateMD5 P (bodyBytes rq)) (images s) = None
       \<and> getFileExtension (Some ct) = Inr ext
       \<and> urlWithPathname P (R2_BASE_URL w) (objectKey w ext) = Some U \<longrightarrow>
      uploadFromBody P (w\<lparr>MAX_BODY_SIZE := mx\<rparr>) rq s
        = (Success U,
           sa\<lparr>r2 := r2Put (objectKey w ext)
                  \<lparr>obj_body = bodyBytes rq, obj_content_type = ct\<rparr> (r2 s),
              images := images s @
                  [\<lparr>img_url = U, img_md5 = calculateMD5 P (bodyBytes rq),
                    img_original_url = None\<rparr>]\<rparr>))
   \<and> (jsonBody rq' = Some j \<and> urlProperty j = Some (JString u)
       \<and> fetch w u = FetchResponse cto clo bo \<and> \<not> truthy clo \<longrightarrow>
      uploadFromUrl P (w\<lparr>MAX_BODY_SIZE := mx\<rparr>) rq' s = uploadFromUrl P w rq' s
      \<and> fst (uploadFromUrl P w rq' s) \<noteq> TooLarge)
   \<and> (jsonBody rq' = Some j \<and> urlProperty j = Some (JString u) \<and> u \<noteq> []
       \<and> \<not> startsWith u (R2_BASE_URL w) \<and> runtimeKey w = ''workerd''
       \<and> fetch w u = FetchResponse (Some ct') clo (Some body) \<and> \<not> truthy clo
       \<and> ct' \<noteq> [] \<and> startsWith ct' ''image/''
       \<and> checkIPUploadCount w (orElse (cfConnectingIP rq') ''unknown'') s = (Inr True, sa')
       \<and> \<not> rejects w D1SelectImage \<and> \<not> rejects w R2Put \<and> \<not> rejects w D1InsertImage
       \<and> find (\<lambda>row. img_md5 row = calculateMD5 P body) (images s) = None
       \<and> getFileExtension (Some ct') = Inr ext'
       \<and> urlWithPathname P (R2_BASE_URL w) (objectKey w ext') = Some U' \<longrightarrow>
      uploadFromUrl P (w\<lparr>MAX_BODY_SIZE := mx\<rparr>) rq' s
        = (Success U',
           sa'\<lparr>r2 := r2Put (objectKey w ext')
                  \<lparr>obj_body = body, obj_content_type = ct'\<rparr> (r2 s),
               images := images s @
                  [\<lparr>img_url = U', img_md5 = calculateMD5 P body, img_original_url = Some u\<rparr>],
               fetched := fetched s @ [u]\<rparr>))"
proof (intro conjI impI)
  assume "\<not> truthy (contentLengthHeader rq)"
  then show "uploadFromBody P (w\<lparr>MAX_BODY_SIZE := mx\<rparr>) rq s = uploadFromBody P w rq s"
    and "fst (uploadFromBody P w rq s) \<noteq> TooLarge"
    by (rule uploadFromBody_ceiling, rule uploadFromBody_not_TooLarge)
next
  assume h: "\<not> truthy (contentLengthHeader rq) \<and> runtimeKey w = ''workerd''
       \<and> contentTypeHeader rq = Some ct \<and> ct \<noteq> [] \<and> startsWith ct ''image/''
       \<and> checkIPUploadCount w (orElse (cfConnectingIP rq) ''unknown'') s = (Inr True, sa)
       \<and> \<not> rejects w ReadBody \<and> \<not> rejects w D1SelectImage \<and> \<not> rejects w R2Put
       \<and> \<not> rejects w D1InsertImage
       \<and> find (\<lambda>row. img_md5 row = calculateMD5 P (bodyBytes rq)) (images s) = None
       \<and> getFileExtension (Some ct) = Inr ext
       \<and> urlWithPathname P (R2_BASE_URL w) (objectKey w ext) = Some U"
  let ?ip = "orElse (cfConnectingIP rq) ''unknown''"
  from h checkIPUploadCount_result [of w ?ip s]
  have sa: "sa = s\<lparr>uploads := uploads s @ [(?ip, today w)]\<rparr>" by auto
  from h have nl: "\<not> exceedsLimit (contentLengthHeader rq) (MAX_BODY_SIZE w)"
    by (simp add: exceedsLimit_absent)
  have new: "find (\<lambda>row. img_md5 row = calculateMD5 P (bodyBytes rq)) (images sa) = None"
    using h by (simp add: sa)
  have "dedupAndStore P w (bodyBytes rq) ct None sa
      = (Inr (JsonSuccess U),
         sa\<lparr>r2 := r2Put (objectKey w ext)
                \<lparr>obj_body = bodyBytes rq, obj_content_type = ct\<rparr> (r2 sa),
            images := images sa @
                [\<lparr>img_url = U, img_md5 = calculateMD5 P (bodyBytes rq), img_original_url = None\<rparr>]\<rparr>)"
    using h new by (intro dedupAndStore_miss) simp_all
  moreover have "uploadFromBody P w rq s
      = (case dedupAndStore P w (bodyBytes rq) ct None sa of
           (Inl e, s2) \<Rightarrow> (Throw e, s2) | (Inr r, s2) \<Rightarrow> (Respond r, s2))"
    using h nl by (intro uploadFromBody_admitted) simp_all
  moreover have "uploadFromBody P (w\<lparr>MAX_BODY_SIZE := mx\<rparr>) rq s = uploadFromBody P w rq s"
    using h by (simp add: uploadFromBody_ceiling)
  ultimately show "uploadFromBody P (w\<lparr>MAX_BODY_SIZE := mx\<rparr>) rq s
        = (Success U,
           sa\<lparr>r2 := r2Put (objectKey w ext)
                  \<lparr>obj_body = bodyBytes rq, obj_content_type = ct\<rparr> (r2 s),
              images := images s @
                  [\<lparr>img_url = U, img_md5 = calculateMD5 P (bodyBytes rq),
                    img_original_url = None\<rparr>]\<rparr>)"
    by (simp add: sa)
next
  assume h: "jsonBody rq' = Some j \<and> urlProperty j = Some (JString u)
       \<and> fetch w u = FetchResponse cto clo bo \<and> \<not> truthy clo"
  then show "uploadFromUrl P (w\<lparr>MAX_BODY_SIZE := mx\<rparr>) rq' s = uploadFromUrl P w rq' s"
    by (intro uploadFromUrl_ceiling [where u = u and j = j and cto = cto and clo = clo and bo = bo])
      simp_all
  from h show "fst (uploadFromUrl P w rq' s) \<noteq> TooLarge"
    by (intro uploadFromUrl_not_TooLarge [where u = u and j = j and cto = cto and clo = clo
          and bo = bo]) simp_all
next
  assume h: "jsonBody rq' = Some j \<and> urlProperty j = Some (JString u) \<and> u \<noteq> []
       \<and> \<not> startsWith u (R2_BASE_URL w) \<and> runtimeKey w = ''workerd''
       \<and> fetch w u = FetchResponse (Some ct') clo (Some body) \<and> \<not> truthy clo
       \<and> ct' \<noteq> [] \<and> startsWith ct' ''image/''
       \<and> checkIPUploadCount w (orElse (cfConnectingIP rq') ''unknown'') s = (Inr True, sa')
       \<and> \<not> rejects w D1SelectImage \<and> \<not> rejects w R2Put \<and> \<not> rejects w D1InsertImage
       \<and> find (\<lambda>row. img_md5 row = calculateMD5 P body) (images s) = None
       \<and> getFileExtension (Some ct') = Inr ext'
       \<and> urlWithPathname P (R2_BASE_URL w) (objectKey w ext') = Some U'"
  let ?ip = "orElse (cfConnectingIP rq') ''unknown''"
  let ?sf = "sa'\<lparr>fetched := fetched sa' @ [u]\<rparr>"
  from h checkIPUploadCount_result [of w ?ip s]
  have sa: "sa' = s\<lparr>uploads := uploads s @ [(?ip, today w)]\<rparr>" by auto
  have new: "find (\<lambda>row. img_md5 row = calculateMD5 P body) (images ?sf) = None"
    using h by (simp add: sa)
  have "dedupAndStore P w body ct' (Some u) ?sf
      = (Inr (JsonSuccess U'),
         ?sf\<lparr>r2 := r2Put (objectKey w ext') \<lparr>obj_body = body, obj_content_type = ct'\<rparr> (r2 ?sf),
            images := images ?sf @
                [\<lparr>img_url = U', img_md5 = calculateMD5 P body, img_original_url = Some u\<rparr>]\<rparr>)"
    using h new by (intro dedupAndStore_miss) simp_all
  moreover have "fetchAndStore P w u sa' = dedupAndStore P w body ct' (Some u) ?sf"
    using h by (intro fetchAndStore_no_length [where clo = clo]) simp_all
  moreover have "uploadFromUrl P w rq' s
      = (case fetchAndStore P w u sa' of
           (Inl e, s2) \<Rightarrow> (UploadFailed, s2) | (Inr r, s2) \<Rightarrow> (Respond r, s2))"
    using h by (intro uploadFromUrl_admitted [where j = j and u = u]) simp_all
  moreover have "uploadFromUrl P (w\<lparr>MAX_BODY_SIZE := mx\<rparr>) rq' s = uploadFromUrl P w rq' s"
    using h by (intro uploadFromUrl_ceiling [where j = j and u = u and clo = clo
          and cto = "Some ct'" and bo = "Some body"]) simp_all
  ultimately show "uploadFromUrl P (w\<lparr>MAX_BODY_SIZE := mx\<rparr>) rq' s
        = (Success U',
           sa'\<lparr>r2 := r2Put (objectKey w ext')
                  \<lparr>obj_body = body, obj_content_type = ct'\<rparr> (r2 s),
               images := images s @
                  [\<lparr>img_url = U', img_md5 = calculateMD5 P body, img_original_url = Some u\<rparr>],
               fetched := fetched s @ [u]\<rparr>)"
    by (simp add: sa)
qed

text \<open>
  A body of three bytes against a ceiling of two, with no \<open>content-length\<close>: on both
  entry points the three bytes are stored.
\<close>

theorem no_declared_length_no_ceiling_witness:
  "\<not> truthy (contentLengthHeader (demoRequest\<lparr>contentLengthHeader := None\<rparr>))
   \<and> length (bodyBytes (demoRequest\<lparr>contentLengthHeader := None\<rparr>)) = 3
   \<and> parseInt ''2'' = Some 2
   \<and> uploadFromBody demoPlatform (demoWorld\<lparr>MAX_BODY_SIZE := ''2''\<rparr>)
        (demoRequest\<lparr>contentLengthHeader := None\<rparr>) emptyState
      = (Success demoUrl, demoStoredState)
   \<and> fst (uploadFromBody demoPlatform demoWorld
        (demoRequest\<lparr>contentLengthHeader := None\<rparr>) emptyState) \<noteq> TooLarge
   \<and> uploadFromUrl demoPlatform
        (demoWorld\<lparr>fetch := (\<lambda>u. FetchResponse (Some ''image/png'') None (Some [1, 2, 3])),
                    MAX_BODY_SIZE := ''2''\<rparr>)
        (demoUrlRequest ''https://example.org/a.png'') emptyState
      = (Success demoUrl,
         demoStoredState\<lparr>images :=
             [\<lparr>img_url = demoUrl, img_md5 = ''md5:000'',
               img_original_url = Some ''https://example.org/a.png''\<rparr>],
           fetched := [''https://example.org/a.png'']\<rparr>)"
proof -
  let ?rq = "demoRequest\<lparr>contentLengthHeader := None\<rparr>"
  let ?sa = "emptyState\<lparr>uploads := [(''203.0.113.7'', ''2024-05-01'')]\<rparr>"
  let ?wf = "demoWorld\<lparr>fetch := (\<lambda>u. FetchResponse (Some ''image/png'') None (Some [1, 2, 3]))\<rparr>"
  let ?u = "''https://example.org/a.png''"
  let ?rq' = "demoUrlRequest ?u"
  have nolen: "\<not> truthy (contentLengthHeader ?rq)" by (simp add: truthy_def)
  have len: "length (bodyBytes ?rq) = 3" by (simp add: demoRequest_def)
  have two: "parseInt ''2'' = Some 2" by (simp add: parse_defs)
  have ext: "getFileExtension (Some ''image/png'') = Inr (Str ''png'')"
    by (simp add: getFileExtension_def truthy_def mimeTypeMap_def)
  have hb: "\<not> truthy (contentLengthHeader ?rq) \<and> runtimeKey demoWorld = ''workerd''
       \<and> contentTypeHeader ?rq = Some ''image/png'' \<and> ''image/png'' \<noteq> []
       \<and> startsWith ''image/png'' ''image/''
       \<and> checkIPUploadCount demoWorld (orElse (cfConnectingIP ?rq) ''unknown'') emptyState
            = (Inr True, ?sa)
       \<and> \<not> rejects demoWorld ReadBody \<and> \<not> rejects demoWorld D1SelectImage
       \<and> \<not> rejects demoWorld R2Put \<and> \<not> rejects demoWorld D1InsertImage
       \<and> find (\<lambda>row. img_md5 row = calculateMD5 demoPlatform (bodyBytes ?rq)) (images emptyState) = None
       \<and> getFileExtension (Some ''image/png'') = Inr (Str ''png'')
       \<and> urlWithPathname demoPlatform (R2_BASE_URL demoWorld) (objectKey demoWorld (Str ''png''))
            = Some demoUrl"
    by (simp add: ext checkIPUploadCount_def countUploads_def jsGreaterEq_def orElse_def
        truthy_def objectKey_def templateString_def demo_defs parse_defs)
  have hu: "jsonBody ?rq' = Some (JObject [(''url'', JString ?u)])
       \<and> urlProperty (JObject [(''url'', JString ?u)]) = Some (JString ?u) \<and> ?u \<noteq> []
       \<and> \<not> startsWith ?u (R2_BASE_URL ?wf) \<and> runtimeKey ?wf = ''workerd''
       \<and> fetch ?wf ?u = FetchResponse (Some ''image/png'') None (Some [1, 2, 3])
       \<and> \<not> truthy None
       \<and> ''image/png'' \<noteq> [] \<and> startsWith ''image/png'' ''image/''
       \<and> checkIPUploadCount ?wf (orElse (cfConnectingIP ?rq') ''unknown'') emptyState
            = (Inr True, ?sa)
       \<and> \<not> rejects ?wf D1SelectImage \<and> \<not> rejects ?wf R2Put \<and> \<not> rejects ?wf D1InsertImage
       \<and> find (\<lambda>row. img_md5 row = calculateMD5 demoPlatform [1, 2, 3]) (images emptyState) = None
       \<and> getFileExtension (Some ''image/png'') = Inr (Str ''png'')
       \<and> urlWithPathname demoPlatform (R2_BASE_URL ?wf) (objectKey ?wf (Str ''png''))
            = Some demoUrl"
    by (simp add: ext urlProperty_demo checkIPUploadCount_def countUploads_def jsGreaterEq_def
        orElse_def truthy_def objectKey_def templateString_def demo_defs parse_defs)
  note T = no_declared_length_no_ceiling [where P = demoPlatform and mx = "''2''" and s = emptyState]
  from T [where w = demoWorld and rq = ?rq, THEN conjunct1] nolen
  have a: "fst (uploadFromBody demoPlatform demoWorld ?rq emptyState) \<noteq> TooLarge" by simp
  from T [where w = demoWorld and rq = ?rq and ct = "''image/png''" and sa = ?sa
      and ext = "Str ''png''" and U = demoUrl, THEN conjunct2, THEN conjunct1] hb
  have b: "uploadFromBody demoPlatform (demoWorld\<lparr>MAX_BODY_SIZE := ''2''\<rparr>) ?rq emptyState
      = (Success demoUrl, demoStoredState)"
    by (simp add: objectKey_def templateString_def r2Put_def demo_defs)
  from T [where w = ?wf and rq' = ?rq' and j = "JObject [(''url'', JString ?u)]" and u = ?u
      and ct' = "''image/png''" and clo = None and body = "[1, 2, 3]" and sa' = ?sa
      and ext' = "Str ''png''" and U' = demoUrl, THEN conjunct2, THEN conjunct2, THEN conjunct2] hu
  have c: "uploadFromUrl demoPlatform (?wf\<lparr>MAX_BODY_SIZE := ''2''\<rparr>) ?rq' emptyState
      = (Success demoUrl,
         demoStoredState\<lparr>images :=
             [\<lparr>img_url = demoUrl, img_md5 = ''md5:000'',
               img_original_url = Some ''https://example.org/a.png''\<rparr>],
           fetched := [''https://example.org/a.png'']\<rparr>)"
    by (simp add: objectKey_def templateString_def r2Put_def demo_defs)
  from nolen len two a b c show ?thesis by simp
qed

section \<open>Two requests on the same stores\<close>

text \<open>
  Claim C4, as amended. When two requests to \<open>/upload-from-body\<close> do not interleave
  (the first finishes before the second starts), they behave as the two handlers run
  one after the other. Then two requests with the same bytes, both valid and
  admitted, create exactly one object and one row of \<open>images\<close>, and both resolve to
  the same URL; and when the client has one admission left, the first request takes
  it and the second is answered with \<open>RateLimited\<close>, the count having grown by one.
  Nothing is claimed under interleaving: the lookup and the insert, and the count and
  the insert, are separate awaited statements with no conditional write.
\<close>

theorem sequential_schedule:
  "interleave P (wa, rqa) (wb, rqb) (replicate 5 True @ replicate 5 False) (Start, Start, s)
     = (Finished (fst (uploadFromBody P wa rqa s)),
        Finished (fst (uploadFromBody P wb rqb (snd (uploadFromBody P wa rqa s)))),
        snd (uploadFromBody P wb rqb (snd (uploadFromBody P wa rqa s))))
   \<and> (runtimeKey wa = ''workerd'' \<and> contentTypeHeader rqa = Some cta \<and> cta \<noteq> []
       \<and> startsWith cta ''image/''
       \<and> \<not> exceedsLimit (contentLengthHeader rqa) (MAX_BODY_SIZE wa)
       \<and> checkIPUploadCount wa (orElse (cfConnectingIP rqa) ''unknown'') s = (Inr True, sa)
       \<and> \<not> rejects wa ReadBody \<and> \<not> rejects wa D1SelectImage \<and> \<not> rejects wa R2Put
       \<and> \<not> rejects wa D1InsertImage
       \<and> find (\<lambda>row. img_md5 row = calculateMD5 P (bodyBytes rqa)) (images s) = None
       \<and> getFileExtension (Some cta) = Inr ext
       \<and> urlWithPathname P (R2_BASE_URL wa) (objectKey wa ext) = Some U \<and> U \<noteq> []
       \<and> s1 = sa\<lparr>r2 := r2Put (objectKey wa ext)
                        \<lparr>obj_body = bodyBytes rqa, obj_content_type = cta\<rparr> (r2 s),
                     images := images s @
                        [\<lparr>img_url = U, img_md5 = calculateMD5 P (bodyBytes rqa),
                          img_original_url = None\<rparr>]\<rparr>
       \<and> runtimeKey wb = ''workerd'' \<and> contentTypeHeader rqb = Some ctb \<and> ctb \<noteq> []
       \<and> startsWith ctb ''image/''
       \<and> \<not> exceedsLimit (contentLengthHeader rqb) (MAX_BODY_SIZE wb)
       \<and> checkIPUploadCount wb (orElse (cfConnectingIP rqb) ''unknown'') s1 = (Inr True, sb)
       \<and> \<not> rejects wb ReadBody \<and> \<not> rejects wb D1SelectImage
       \<and> bodyBytes rqb = bodyBytes rqa \<longrightarrow>
      interleave P (wa, rqa) (wb, rqb) (replicate 5 True @ replicate 5 False) (Start, Start, s)
        = (Finished (Success U), Finished (Success U), sb)
      \<and> r2 sb = r2Put (objectKey wa ext)
                  \<lparr>obj_body = bodyBytes rqa, obj_content_type = cta\<rparr> (r2 s)
      \<and> images sb = images s @
                  [\<lparr>img_url = U, img_md5 = calculateMD5 P (bodyBytes rqa), img_original_url = None\<rparr>])
   \<and> (runtimeKey wa = ''workerd'' \<and> contentTypeHeader rqa = Some cta \<and> cta \<noteq> []
       \<and> startsWith cta ''image/''
       \<and> \<not> exceedsLimit (contentLengthHeader rqa) (MAX_BODY_SIZE wa)
       \<and> runtimeKey wb = ''workerd'' \<and> contentTypeHeader rqb = Some ctb \<and> ctb \<noteq> []
       \<and> startsWith ctb ''image/''
       \<and> \<not> exceedsLimit (contentLengthHeader rqb) (MAX_BODY_SIZE wb)
       \<and> \<not> rejects wa D1Count \<and> \<not> rejects wa D1InsertUpload \<and> \<not> rejects wb D1Count
       \<and> orElse (cfConnectingIP rqa) ''unknown'' = ip
       \<and> orElse (cfConnectingIP rqb) ''unknown'' = ip
       \<and> today wa = d \<and> today wb = d
       \<and> parseInt (MAX_UPLOAD_COUNT wa) = Some m \<and> parseInt (MAX_UPLOAD_COUNT wb) = Some m
       \<and> safeInteger m \<and> int (countUploads ip d s) + 1 = m \<longrightarrow>
      fst (snd (interleave P (wa, rqa) (wb, rqb) (replicate 5 True @ replicate 5 False)
                 (Start, Start, s))) = Finished RateLimited
      \<and> countUploads ip d
           (snd (snd (interleave P (wa, rqa) (wb, rqb) (replicate 5 True @ replicate 5 False)
                       (Start, Start, s))))
          = countUploads ip d s + 1)"
proof (intro conjI impI)
  show seq: "interleave P (wa, rqa) (wb, rqb) (replicate 5 True @ replicate 5 False)
        (Start, Start, s)
     = (Finished (fst (uploadFromBody P wa rqa s)),
        Finished (fst (uploadFromBody P wb rqb (snd (uploadFromBody P wa rqa s)))),
        snd (uploadFromBody P wb rqb (snd (uploadFromBody P wa rqa s))))"
    by (rule interleave_sequential)
  {
    assume h: "runtimeKey wa = ''workerd'' \<and> contentTypeHeader rqa = Some cta \<and> cta \<noteq> []
       \<and> startsWith cta ''image/''
       \<and> \<not> exceedsLimit (contentLengthHeader rqa) (MAX_BODY_SIZE wa)
       \<and> checkIPUploadCount wa (orElse (cfConnectingIP rqa) ''unknown'') s = (Inr True, sa)
       \<and> \<not> rejects wa ReadBody \<and> \<not> rejects wa D1SelectImage \<and> \<not> rejects wa R2Put
       \<and> \<not> rejects wa D1InsertImage
       \<and> find (\<lambda>row. img_md5 row = calculateMD5 P (bodyBytes rqa)) (images s) = None
       \<and> getFileExtension (Some cta) = Inr ext
       \<and> urlWithPathname P (R2_BASE_URL wa) (objectKey wa ext) = Some U \<and> U \<noteq> []
       \<and> s1 = sa\<lparr>r2 := r2Put (objectKey wa ext)
                        \<lparr>obj_body = bodyBytes rqa, obj_content_type = cta\<rparr> (r2 s),
                     images := images s @
                        [\<lparr>img_url = U, img_md5 = calculateMD5 P (bodyBytes rqa),
                          img_original_url = None\<rparr>]\<rparr>
       \<and> runtimeKey wb = ''workerd'' \<and> contentTypeHeader rqb = Some ctb \<and> ctb \<noteq> []
       \<and> startsWith ctb ''image/''
       \<and> \<not> exceedsLimit (contentLengthHeader rqb) (MAX_BODY_SIZE wb)
       \<and> checkIPUploadCount wb (orElse (cfConnectingIP rqb) ''unknown'') s1 = (Inr True, sb)
       \<and> \<not> rejects wb ReadBody \<and> \<not> rejects wb D1SelectImage
       \<and> bodyBytes rqb = bodyBytes rqa"
    from h have a: "runtimeKey wa = ''workerd''" "contentTypeHeader rqa = Some cta" "cta \<noteq> []"
        "startsWith cta ''image/''"
        "\<not> exceedsLimit (contentLengthHeader rqa) (MAX_BODY_SIZE wa)"
        "checkIPUploadCount wa (orElse (cfConnectingIP rqa) ''unknown'') s = (Inr True, sa)"
        "\<not> rejects wa ReadBody" "\<not> rejects wa D1SelectImage" "\<not> rejects wa R2Put"
        "\<not> rejects wa D1InsertImage"
        "find (\<lambda>row. img_md5 row = calculateMD5 P (bodyBytes rqa)) (images s) = None"
        "getFileExtension (Some cta) = Inr ext"
        "urlWithPathname P (R2_BASE_URL wa) (objectKey wa ext) = Some U" "U \<noteq> []"
      by blast+
    from h have s1: "s1 = sa\<lparr>r2 := r2Put (objectKey wa ext)
                        \<lparr>obj_body = bodyBytes rqa, obj_content_type = cta\<rparr> (r2 s),
                     images := images s @
                        [\<lparr>img_url = U, img_md5 = calculateMD5 P (bodyBytes rqa),
                          img_original_url = None\<rparr>]\<rparr>"
      by blast
    from h have b: "runtimeKey wb = ''workerd''" "contentTypeHeader rqb = Some ctb" "ctb \<noteq> []"
        "startsWith ctb ''image/''"
        "\<not> exceedsLimit (contentLengthHeader rqb) (MAX_BODY_SIZE wb)"
        "checkIPUploadCount wb (orElse (cfConnectingIP rqb) ''unknown'') s1 = (Inr True, sb)"
        "\<not> rejects wb ReadBody" "\<not> rejects wb D1SelectImage"
        "bodyBytes rqb = bodyBytes rqa"
      by blast+
    have two: "uploadFromBody P wa rqa s = (Success U, s1)
        \<and> uploadFromBody P wb rqb s1 = (Success U, sb)
        \<and> r2 sb = r2 s1 \<and> images sb = images s1"
      using a s1 b by (rule two_uploads_same_bytes)
    then show "interleave P (wa, rqa) (wb, rqb) (replicate 5 True @ replicate 5 False)
          (Start, Start, s)
        = (Finished (Success U), Finished (Success U), sb)"
      by (simp add: seq)
    have "r2 s1 = r2Put (objectKey wa ext)
          \<lparr>obj_body = bodyBytes rqa, obj_content_type = cta\<rparr> (r2 s)"
      and "images s1 = images s @
          [\<lparr>img_url = U, img_md5 = calculateMD5 P (bodyBytes rqa), img_original_url = None\<rparr>]"
      by (simp_all add: s1)
    with two show "r2 sb = r2Put (objectKey wa ext)
          \<lparr>obj_body = bodyBytes rqa, obj_content_type = cta\<rparr> (r2 s)"
      and "images sb = images s @
          [\<lparr>img_url = U, img_md5 = calculateMD5 P (bodyBytes rqa), img_original_url = None\<rparr>]"
      by simp_all
  }
  {
    assume h: "runtimeKey wa = ''workerd'' \<and> contentTypeHeader rqa = Some cta \<and> cta \<noteq> []
       \<and> startsWith cta ''image/''
       \<and> \<not> exceedsLimit (contentLengthHeader rqa) (MAX_BODY_SIZE wa)
       \<and> runtimeKey wb = ''workerd'' \<and> contentTypeHeader rqb = Some ctb \<and> ctb \<noteq> []
       \<and> startsWith ctb ''image/''
       \<and> \<not> exceedsLimit (contentLengthHeader rqb) (MAX_BODY_SIZE wb)
       \<and> \<not> rejects wa D1Count \<and> \<not> rejects wa D1InsertUpload \<and> \<not> rejects wb D1Count
       \<and> orElse (cfConnectingIP rqa) ''unknown'' = ip
       \<and> orElse (cfConnectingIP rqb) ''unknown'' = ip
       \<and> today wa = d \<and> today wb = d
       \<and> parseInt (MAX_UPLOAD_COUNT wa) = Some m \<and> parseInt (MAX_UPLOAD_COUNT wb) = Some m
       \<and> safeInteger m \<and> int (countUploads ip d s) + 1 = m"
    let ?sa = "s\<lparr>uploads := uploads s @ [(ip, d)]\<rparr>"
    let ?s1 = "snd (uploadFromBody P wa rqa s)"
    have adm: "checkIPUploadCount wa (orElse (cfConnectingIP rqa) ''unknown'') s = (Inr True, ?sa)"
      using h checkIPUploadCount_admit [of wa m ip s] by auto
    have up: "uploads ?s1 = uploads ?sa"
      using h adm by (intro uploadFromBody_uploads_admitted [where ct = cta]) simp_all
    then have cnt: "countUploads ip d ?s1 = countUploads ip d s + 1"
      by (simp add: countUploads_def)
    with h have "m \<le> int (countUploads ip (today wb) ?s1)" by auto
    with h have "checkIPUploadCount wb ip ?s1 = (Inr False, ?s1)"
      by (intro checkIPUploadCount_refuse [where m = m]) simp_all
    with h have second: "uploadFromBody P wb rqb ?s1 = (RateLimited, ?s1)"
      by (intro uploadFromBody_refused [where ct = ctb]) simp_all
    show "fst (snd (interleave P (wa, rqa) (wb, rqb) (replicate 5 True @ replicate 5 False)
                 (Start, Start, s))) = Finished RateLimited"
      by (simp add: seq second)
    show "countUploads ip d
           (snd (snd (interleave P (wa, rqa) (wb, rqb) (replicate 5 True @ replicate 5 False)
                       (Start, Start, s))))
          = countUploads ip d s + 1"
      by (simp add: seq second cnt)
  }
qed

text \<open>
  \<open>demoRequest\<close> twice without interleaving: one object, the same URL twice; and
  with a quota of one, the second request is refused.
\<close>

theorem sequential_schedule_witness:
  "interleave demoPlatform (demoWorld, demoRequest)
      (demoWorld\<lparr>stamp := ''20240501120500000'', random36 := ''zzzzzzz''\<rparr>, demoRequest)
      (replicate 5 True @ replicate 5 False) (Start, Start, emptyState)
     = (Finished (Success demoUrl), Finished (Success demoUrl), demoFullState)
   \<and> r2 demoFullState
     = r2Put demoKey \<lparr>obj_body = [1, 2, 3], obj_content_type = ''image/png''\<rparr> (r2 emptyState)
   \<and> fst (snd (interleave demoPlatform
        (demoWorld\<lparr>MAX_UPLOAD_COUNT := ''1''\<rparr>, demoRequest)
        (demoWorld\<lparr>MAX_UPLOAD_COUNT := ''1''\<rparr>, demoRequest)
        (replicate 5 True @ replicate 5 False) (Start, Start, emptyState)))
     = Finished RateLimited
   \<and> countUploads ''203.0.113.7'' ''2024-05-01''
        (snd (snd (interleave demoPlatform
          (demoWorld\<lparr>MAX_UPLOAD_COUNT := ''1''\<rparr>, demoRequest)
          (demoWorld\<lparr>MAX_UPLOAD_COUNT := ''1''\<rparr>, demoRequest)
          (replicate 5 True @ replicate 5 False) (Start, Start, emptyState))))
     = countUploads ''203.0.113.7'' ''2024-05-01'' emptyState + 1"
proof -
  let ?w2 = "demoWorld\<lparr>stamp := ''20240501120500000'', random36 := ''zzzzzzz''\<rparr>"
  let ?w1 = "demoWorld\<lparr>MAX_UPLOAD_COUNT := ''1''\<rparr>"
  let ?sa = "emptyState\<lparr>uploads := [(''203.0.113.7'', ''2024-05-01'')]\<rparr>"
  have ext: "getFileExtension (Some ''image/png'') = Inr (Str ''png'')"
    by (simp add: getFileExtension_def truthy_def mimeTypeMap_def)
  have key: "objectKey demoWorld (Str ''png'') = demoKey"
    by (simp add: objectKey_def templateString_def demo_defs)
  have dedup: "runtimeKey demoWorld = ''workerd'' \<and> contentTypeHeader demoRequest = Some ''image/png''
       \<and> ''image/png'' \<noteq> [] \<and> startsWith ''image/png'' ''image/''
       \<and> \<not> exceedsLimit (contentLengthHeader demoRequest) (MAX_BODY_SIZE demoWorld)
       \<and> checkIPUploadCount demoWorld (orElse (cfConnectingIP demoRequest) ''unknown'') emptyState
            = (Inr True, ?sa)
       \<and> \<not> rejects demoWorld ReadBody \<and> \<not> rejects demoWorld D1SelectImage
       \<and> \<not> rejects demoWorld R2Put \<and> \<not> rejects demoWorld D1InsertImage
       \<and> find (\<lambda>row. img_md5 row = calculateMD5 demoPlatform (bodyBytes demoRequest))
            (images emptyState) = None
       \<and> getFileExtension (Some ''image/png'') = Inr (Str ''png'')
       \<and> urlWithPathname demoPlatform (R2_BASE_URL demoWorld) (objectKey demoWorld (Str ''png''))
            = Some demoUrl \<and> demoUrl \<noteq> []
       \<and> demoStoredState = ?sa\<lparr>r2 := r2Put (objectKey demoWorld (Str ''png''))
                        \<lparr>obj_body = bodyBytes demoRequest, obj_content_type = ''image/png''\<rparr>
                        (r2 emptyState),
                     images := images emptyState @
                        [\<lparr>img_url = demoUrl, img_md5 = calculateMD5 demoPlatform (bodyBytes demoRequest),
                          img_original_url = None\<rparr>]\<rparr>
       \<and> runtimeKey ?w2 = ''workerd'' \<and> contentTypeHeader demoRequest = Some ''image/png''
       \<and> ''image/png'' \<noteq> [] \<and> startsWith ''image/png'' ''image/''
       \<and> \<not> exceedsLimit (contentLengthHeader demoRequest) (MAX_BODY_SIZE ?w2)
       \<and> checkIPUploadCount ?w2 (orElse (cfConnectingIP demoRequest) ''unknown'') demoStoredState
            = (Inr True, demoFullState)
       \<and> \<not> rejects ?w2 ReadBody \<and> \<not> rejects ?w2 D1SelectImage
       \<and> bodyBytes demoRequest = bodyBytes demoRequest"
    by (simp add: ext checkIPUploadCount_def countUploads_def jsGreaterEq_def jsGreater_def
        exceedsLimit_def orElse_def truthy_def objectKey_def templateString_def r2Put_def
        demo_defs parse_defs)
  have quota: "runtimeKey ?w1 = ''workerd'' \<and> contentTypeHeader demoRequest = Some ''image/png''
       \<and> ''image/png'' \<noteq> [] \<and> startsWith ''image/png'' ''image/''
       \<and> \<not> exceedsLimit (contentLengthHeader demoRequest) (MAX_BODY_SIZE ?w1)
       \<and> runtimeKey ?w1 = ''workerd'' \<and> contentTypeHeader demoRequest = Some ''image/png''
       \<and> ''image/png'' \<noteq> [] \<and> startsWith ''image/png'' ''image/''
       \<and> \<not> exceedsLimit (contentLengthHeader demoRequest) (MAX_BODY_SIZE ?w1)
       \<and> \<not> rejects ?w1 D1Count \<and> \<not> rejects ?w1 D1InsertUpload \<and> \<not> rejects ?w1 D1Count
       \<and> orElse (cfConnectingIP demoRequest) ''unknown'' = ''203.0.113.7''
       \<and> orElse (cfConnectingIP demoRequest) ''unknown'' = ''203.0.113.7''
       \<and> today ?w1 = ''2024-05-01'' \<and> today ?w1 = ''2024-05-01''
       \<and> parseInt (MAX_UPLOAD_COUNT ?w1) = Some 1 \<and> parseInt (MAX_UPLOAD_COUNT ?w1) = Some 1
       \<and> safeInteger 1
       \<and> int (countUploads ''203.0.113.7'' ''2024-05-01'' emptyState) + 1 = 1"
    by (simp add: countUploads_def jsGreater_def exceedsLimit_def orElse_def truthy_def
        safeInteger_def demo_defs parse_defs)
  note T = sequential_schedule [where P = demoPlatform and s = emptyState and rqa = demoRequest
      and rqb = demoRequest]
  from T [where wa = demoWorld and wb = ?w2 and cta = "''image/png''" and ctb = "''image/png''"
      and sa = ?sa and ?s1.0 = demoStoredState and sb = demoFullState and ext = "Str ''png''"
      and U = demoUrl, THEN conjunct2, THEN conjunct1] dedup
  have one: "interleave demoPlatform (demoWorld, demoRequest) (?w2, demoRequest)
      (replicate 5 True @ replicate 5 False) (Start, Start, emptyState)
     = (Finished (Success demoUrl), Finished (Success demoUrl), demoFullState)"
    and two: "r2 demoFullState
     = r2Put demoKey \<lparr>obj_body = [1, 2, 3], obj_content_type = ''image/png''\<rparr> (r2 emptyState)"
    by (simp_all add: key demoRequest_def)
  from T [where wa = ?w1 and wb = ?w1 and cta = "''image/png''" and ctb = "''image/png''"
      and ip = "''203.0.113.7''" and d = "''2024-05-01''" and m = 1,
      THEN conjunct2, THEN conjunct2] quota
  have three: "fst (snd (interleave demoPlatform (?w1, demoRequest) (?w1, demoRequest)
        (replicate 5 True @ replicate 5 False) (Start, Start, emptyState))) = Finished RateLimited"
    and four: "countUploads ''203.0.113.7'' ''2024-05-01''
        (snd (snd (interleave demoPlatform (?w1, demoRequest) (?w1, demoRequest)
          (replicate 5 True @ replicate 5 False) (Start, Start, emptyState))))
     = countUploads ''203.0.113.7'' ''2024-05-01'' emptyState + 1"
    by blast+
  from one two three four show ?thesis by blast
qed

text \<open>
  Claim C4 as stated fails under interleaving. The two requests carry the same bytes
  and alternate step by step, with a quota of one admission: both counts read 0, both
  lookups miss, and the outcome is two admissions, two objects in the bucket, two rows
  of \<open>images\<close> for one fingerprint and two different URLs. Where the table refuses
  the second row for the fingerprint, the second request fails instead, and the bucket
  still holds the two objects.
\<close>

theorem not_atomic_counterexample:
  "parseInt (MAX_UPLOAD_COUNT (demoWorld\<lparr>MAX_UPLOAD_COUNT := ''1''\<rparr>)) = Some 1
   \<and> interleave demoPlatform
        (demoWorld\<lparr>MAX_UPLOAD_COUNT := ''1''\<rparr>, demoRequest)
        (demoWorld\<lparr>MAX_UPLOAD_COUNT := ''1'', stamp := ''20240501120000001'',
                    random36 := ''zzzzzzz''\<rparr>, demoRequest)
        [True, False, True, False, True, False, True, False, True, False]
        (Start, Start, emptyState)
      = (Finished (Success ''https://r2.test/i/20240501120000000-k3x9q0a.png''),
         Finished (Success ''https://r2.test/i/20240501120000001-zzzzzzz.png''),
         \<lparr>uploads = [(''203.0.113.7'', ''2024-05-01''), (''203.0.113.7'', ''2024-05-01'')],
          images =
            [\<lparr>img_url = ''https://r2.test/i/20240501120000000-k3x9q0a.png'',
              img_md5 = ''md5:000'', img_original_url = None\<rparr>,
             \<lparr>img_url = ''https://r2.test/i/20240501120000001-zzzzzzz.png'',
              img_md5 = ''md5:000'', img_original_url = None\<rparr>],
          r2 =
            [(''i/20240501120000000-k3x9q0a.png'',
              \<lparr>obj_body = [1, 2, 3], obj_content_type = ''image/png''\<rparr>),
             (''i/20240501120000001-zzzzzzz.png'',
              \<lparr>obj_body = [1, 2, 3], obj_content_type = ''image/png''\<rparr>)],
          fetched = []\<rparr>)
   \<and> interleave demoPlatform
        (demoWorld\<lparr>MAX_UPLOAD_COUNT := ''1''\<rparr>, demoRequest)
        (demoWorld\<lparr>MAX_UPLOAD_COUNT := ''1'', stamp := ''20240501120000001'',
                    random36 := ''zzzzzzz'', rejects := (\<lambda>call. call = D1InsertImage)\<rparr>,
         demoRequest)
        [True, False, True, False, True, False, True, False, True, False]
        (Start, Start, emptyState)
      = (Finished (Success ''https://r2.test/i/20240501120000000-k3x9q0a.png''),
         Finished (Throw D1Failure),
         \<lparr>uploads = [(''203.0.113.7'', ''2024-05-01''), (''203.0.113.7'', ''2024-05-01'')],
          images =
            [\<lparr>img_url = ''https://r2.test/i/20240501120000000-k3x9q0a.png'',
              img_md5 = ''md5:000'', img_original_url = None\<rparr>],
          r2 =
            [(''i/20240501120000000-k3x9q0a.png'',
              \<lparr>obj_body = [1, 2, 3], obj_content_type = ''image/png''\<rparr>),
             (''i/20240501120000001-zzzzzzz.png'',
              \<lparr>obj_body = [1, 2, 3], obj_content_type = ''image/png''\<rparr>)],
          fetched = []\<rparr>)"
  by (simp add: putStep_def handler_defs demo_defs parse_defs)

section \<open>Failures of the stores\<close>

text \<open>
  Claim C6, on the code. In \<open>/upload-from-body\<close> no statement is inside a \<open>try\<close>: for
  a request that is valid and admitted, an exception of the lookup, the store or the
  index write leaves the handler as it is, and no JSON error body is produced. In
  \<open>/upload-from-url\<close> the same statements are inside the \<open>try\<close>, and every exception of
  the block is answered with \<open>{error: "Failed to upload image"}\<close> and status 500.
\<close>

theorem store_failure_escapes:
  "(runtimeKey w = ''workerd'' \<and> contentTypeHeader rq = Some ct \<and> ct \<noteq> []
      \<and> startsWith ct ''image/''
      \<and> \<not> exceedsLimit (contentLengthHeader rq) (MAX_BODY_SIZE w)
      \<and> checkIPUploadCount w (orElse (cfConnectingIP rq) ''unknown'') s = (Inr True, sa)
      \<and> \<not> rejects w ReadBody
      \<and> dedupAndStore P w (bodyBytes rq) ct None sa = (Inl e, s') \<longrightarrow>
        uploadFromBody P w rq s = (Throw e, s'))
   \<and> (runtimeKey w = ''workerd'' \<and> jsonBody rq' = Some j \<and> urlProperty j = Some (JString u)
      \<and> u \<noteq> [] \<and> \<not> startsWith u (R2_BASE_URL w)
      \<and> checkIPUploadCount w (orElse (cfConnectingIP rq') ''unknown'') s = (Inr True, sa')
      \<and> fetchAndStore P w u sa' = (Inl e', s'') \<longrightarrow>
        uploadFromUrl P w rq' s = (UploadFailed, s''))"
proof (intro conjI impI)
  assume h: "runtimeKey w = ''workerd'' \<and> contentTypeHeader rq = Some ct \<and> ct \<noteq> []
      \<and> startsWith ct ''image/''
      \<and> \<not> exceedsLimit (contentLengthHeader rq) (MAX_BODY_SIZE w)
      \<and> checkIPUploadCount w (orElse (cfConnectingIP rq) ''unknown'') s = (Inr True, sa)
      \<and> \<not> rejects w ReadBody
      \<and> dedupAndStore P w (bodyBytes rq) ct None sa = (Inl e, s')"
  then have "uploadFromBody P w rq s
      = (case dedupAndStore P w (bodyBytes rq) ct None sa of
           (Inl e, s2) \<Rightarrow> (Throw e, s2) | (Inr r, s2) \<Rightarrow> (Respond r, s2))"
    by (intro uploadFromBody_admitted) simp_all
  with h show "uploadFromBody P w rq s = (Throw e, s')" by simp
next
  assume h: "runtimeKey w = ''workerd'' \<and> jsonBody rq' = Some j \<and> urlProperty j = Some (JString u)
      \<and> u \<noteq> [] \<and> \<not> startsWith u (R2_BASE_URL w)
      \<and> checkIPUploadCount w (orElse (cfConnectingIP rq') ''unknown'') s = (Inr True, sa')
      \<and> fetchAndStore P w u sa' = (Inl e', s'')"
  then have "uploadFromUrl P w rq' s
      = (case fetchAndStore P w u sa' of
           (Inl e, s2) \<Rightarrow> (UploadFailed, s2) | (Inr r, s2) \<Rightarrow> (Respond r, s2))"
    by (intro uploadFromUrl_admitted [where j = j and u = u]) simp_all
  with h show "uploadFromUrl P w rq' s = (UploadFailed, s'')" by simp
qed

text \<open>
  The insert into \<open>images\<close> rejects after the object has been stored: the handler of
  \<open>/upload-from-body\<close> throws and leaves the object in the bucket; the handler of
  \<open>/upload-from-url\<close> answers 500.
\<close>

theorem store_failure_escapes_witness:
  "dedupAndStore demoPlatform (demoWorld\<lparr>rejects := (\<lambda>call. call = D1InsertImage)\<rparr>)
      (bodyBytes demoRequest) ''image/png'' None
      (emptyState\<lparr>uploads := [(''203.0.113.7'', ''2024-05-01'')]\<rparr>)
     = (Inl D1Failure, demoStoredState\<lparr>images := []\<rparr>)
   \<and> uploadFromBody demoPlatform (demoWorld\<lparr>rejects := (\<lambda>call. call = D1InsertImage)\<rparr>)
      demoRequest emptyState
     = (Throw D1Failure, demoStoredState\<lparr>images := []\<rparr>)
   \<and> uploadFromUrl demoPlatform
      (demoWorld\<lparr>fetch := (\<lambda>u. FetchResponse (Some ''image/png'') (Some ''3'') (Some [1, 2, 3])),
                  rejects := (\<lambda>call. call = D1InsertImage)\<rparr>)
      (demoUrlRequest ''https://example.org/a.png'') emptyState
     = (UploadFailed,
        demoStoredState\<lparr>images := [], fetched := [''https://example.org/a.png'']\<rparr>)"
proof -
  let ?w = "demoWorld\<lparr>rejects := (\<lambda>call. call = D1InsertImage)\<rparr>"
  let ?wf = "demoWorld\<lparr>fetch := (\<lambda>u. FetchResponse (Some ''image/png'') (Some ''3'') (Some [1, 2, 3])),
                  rejects := (\<lambda>call. call = D1InsertImage)\<rparr>"
  let ?sa = "emptyState\<lparr>uploads := [(''203.0.113.7'', ''2024-05-01'')]\<rparr>"
  let ?u = "''https://example.org/a.png''"
  let ?rq' = "demoUrlRequest ?u"
  have hb: "runtimeKey ?w = ''workerd'' \<and> contentTypeHeader demoRequest = Some ''image/png''
      \<and> ''image/png'' \<noteq> [] \<and> startsWith ''image/png'' ''image/''
      \<and> \<not> exceedsLimit (contentLengthHeader demoRequest) (MAX_BODY_SIZE ?w)
      \<and> checkIPUploadCount ?w (orElse (cfConnectingIP demoRequest) ''unknown'') emptyState
           = (Inr True, ?sa)
      \<and> \<not> rejects ?w ReadBody
      \<and> dedupAndStore demoPlatform ?w (bodyBytes demoRequest) ''image/png'' None ?sa
           = (Inl D1Failure, demoStoredState\<lparr>images := []\<rparr>)"
    by (simp add: handler_defs demo_defs parse_defs)
  have hu: "runtimeKey ?wf = ''workerd'' \<and> jsonBody ?rq' = Some (JObject [(''url'', JString ?u)])
      \<and> urlProperty (JObject [(''url'', JString ?u)]) = Some (JString ?u)
      \<and> ?u \<noteq> [] \<and> \<not> startsWith ?u (R2_BASE_URL ?wf)
      \<and> checkIPUploadCount ?wf (orElse (cfConnectingIP ?rq') ''unknown'') emptyState
           = (Inr True, ?sa)
      \<and> fetchAndStore demoPlatform ?wf ?u ?sa
           = (Inl D1Failure, demoStoredState\<lparr>images := [], fetched := [?u]\<rparr>)"
    by (simp add: handler_defs demo_defs parse_defs)
  note T = store_failure_escapes [where P = demoPlatform and s = emptyState]
  from T [where w = ?w and rq = demoRequest and ct = "''image/png''" and sa = ?sa
      and e = D1Failure and s' = "demoStoredState\<lparr>images := []\<rparr>", THEN conjunct1] hb
  have b: "uploadFromBody demoPlatform ?w demoRequest emptyState
      = (Throw D1Failure, demoStoredState\<lparr>images := []\<rparr>)"
    by blast
  from T [where w = ?wf and rq' = ?rq' and j = "JObject [(''url'', JString ?u)]" and u = ?u
      and sa' = ?sa and e' = D1Failure
      and s'' = "demoStoredState\<lparr>images := [], fetched := [?u]\<rparr>", THEN conjunct2] hu
  have c: "uploadFromUrl demoPlatform ?wf ?rq' emptyState
      = (UploadFailed, demoStoredState\<lparr>images := [], fetched := [?u]\<rparr>)"
    by blast
  from hb b c show ?thesis by blast
qed

end
